theory Spec2Isabelle
  imports Main
begin

section \<open>Code \<^emph>\<open>&\<close> Brew: the browser-side persistence and validation layer\<close>

text \<open>
  A shallow embedding of the JavaScript of the site: the contact form
  (\<^verbatim>\<open>js/contactForm.js\<close>), the blog grid (\<^verbatim>\<open>js/blog.js\<close>), the account
  registration form and the welcome dashboard with its favourite drinks.

  Conventions of the embedding:
  \<^item> a JavaScript string is the list of its UTF-16 code units (\<open>length\<close> is the
    source's \<^verbatim>\<open>.length\<close>); a code unit is a natural number;
  \<^item> an exception is a value: a function that can throw returns \<open>js_error + 'a\<close>,
    and \<^verbatim>\<open>try { ... } catch (e) { ... }\<close> is \<open>try_catch\<close>;
  \<^item> the browser's \<^verbatim>\<open>Storage\<close> objects and \<^verbatim>\<open>JSON\<close> are not code of the
    site: a storage area is a record (it can be disabled, it has a quota, it holds
    texts under keys), and \<^verbatim>\<open>JSON.parse\<close>/\<^verbatim>\<open>JSON.stringify\<close> are parameters
    of every function that calls them (a \<open>json_codec\<close>);
  \<^item> the DOM is reduced to the values the functions read from it and the marks
    they leave on it; console output is not modelled.
\<close>

subsection \<open>Strings\<close>

type_synonym jsstring = "nat list"

definition lit :: "string \<Rightarrow> jsstring" where
  "lit s = map of_char s"

text \<open>
  White space as \<^verbatim>\<open>String.prototype.trim\<close>, \<^verbatim>\<open>jQuery.trim\<close> and the
  regular-expression class \<^verbatim>\<open>\s\<close> see it: the ECMAScript WhiteSpace and
  LineTerminator code units.
\<close>

definition is_space :: "nat \<Rightarrow> bool" where
  "is_space c \<longleftrightarrow>
     c = 9 \<or> c = 10 \<or> c = 11 \<or> c = 12 \<or> c = 13 \<or> c = 32 \<or> c = 160 \<or>
     c = 5760 \<or> (8192 \<le> c \<and> c \<le> 8202) \<or> c = 8232 \<or> c = 8233 \<or>
     c = 8239 \<or> c = 8287 \<or> c = 12288 \<or> c = 65279"

definition trim :: "jsstring \<Rightarrow> jsstring" where
  "trim s = rev (dropWhile is_space (rev (dropWhile is_space s)))"

subsection \<open>Values\<close>

text \<open>
  The primitive values that form fields, objects and JSON carry. Numbers are integers
  (ids are millisecond time stamps); \<^verbatim>\<open>NaN\<close> is not modelled. \<open>JUndefined\<close> is also
  what reading an absent property gives.
\<close>

datatype jsval = JUndefined | JNull | JBool bool | JNum int | JStr jsstring

fun truthy :: "jsval \<Rightarrow> bool" where
  "truthy JUndefined = False"
| "truthy JNull = False"
| "truthy (JBool b) = b"
| "truthy (JNum n) = (n \<noteq> 0)"
| "truthy (JStr s) = (s \<noteq> [])"

definition js_or :: "jsval \<Rightarrow> jsval \<Rightarrow> jsval" where
  "js_or a b = (if truthy a then a else b)"

definition strict_eq :: "jsval \<Rightarrow> jsval \<Rightarrow> bool" where
  "strict_eq a b \<longleftrightarrow> a = b"

text \<open>
  What \<^verbatim>\<open>JSON.parse\<close> can make of the text under a repository key: an array of
  records \<open>'r\<close>, a primitive value (\<^verbatim>\<open>null\<close>, a boolean, a number, a string), or an
  object that is not an array. Of an object only this is kept: it has no property
  \<^verbatim>\<open>length\<close> and none that can be called. Arrays whose elements are not records of
  the key and objects with a \<^verbatim>\<open>length\<close> property are outside the model.
\<close>

datatype 'r json = JArray "'r list" | JValue jsval | JObject

subsection \<open>Exceptions, storage areas and JSON\<close>

datatype js_error = SecurityError | QuotaExceededError | SyntaxError | TypeError

definition try_catch :: "js_error + 'a \<Rightarrow> (js_error \<Rightarrow> js_error + 'a) \<Rightarrow> js_error + 'a" where
  "try_catch body handler = (case body of Inl err \<Rightarrow> handler err | Inr v \<Rightarrow> Inr v)"

text \<open>
  A storage area (\<^verbatim>\<open>localStorage\<close> or \<^verbatim>\<open>sessionStorage\<close>). Every access to a
  disabled area throws; a write of a text longer than the remaining quota throws.
\<close>

record storage =
  disabled :: bool
  quota :: nat
  items :: "string \<rightharpoonup> jsstring"

definition getItem :: "storage \<Rightarrow> string \<Rightarrow> js_error + jsstring option" where
  "getItem st k = (if disabled st then Inl SecurityError else Inr (items st k))"

definition setItem :: "storage \<Rightarrow> string \<Rightarrow> jsstring \<Rightarrow> js_error + storage" where
  "setItem st k v =
     (if disabled st then Inl SecurityError
      else if quota st < length v then Inl QuotaExceededError
      else Inr (st\<lparr>items := (items st)(k \<mapsto> v)\<rparr>))"

text \<open>
  \<^verbatim>\<open>JSON.parse\<close> and \<^verbatim>\<open>JSON.stringify\<close> at the type \<open>'v\<close> of the values a key
  holds: \<open>'r json\<close> for the two repository keys, the session object for the session
  key. \<open>JSON_parse\<close> is \<open>None\<close> on a text that is not JSON (the source's
  \<^verbatim>\<open>SyntaxError\<close>).
\<close>

record 'v json_codec =
  JSON_parse :: "jsstring \<Rightarrow> 'v option"
  JSON_stringify :: "'v \<Rightarrow> jsstring"

definition json_parse :: "'v json_codec \<Rightarrow> jsstring \<Rightarrow> js_error + 'v" where
  "json_parse J s = (case JSON_parse J s of None \<Rightarrow> Inl SyntaxError | Some v \<Rightarrow> Inr v)"

text \<open>
  A codec given by a finite table of texts and their values, to run the functions
  on concrete storage contents.
\<close>

definition table_codec :: "(jsstring \<times> 'v) list \<Rightarrow> 'v json_codec" where
  "table_codec tab =
     \<lparr>JSON_parse = map_of tab,
      JSON_stringify = (\<lambda>v. case find (\<lambda>p. snd p = v) tab of
                               None \<Rightarrow> lit ''null'' | Some p \<Rightarrow> fst p)\<rparr>"

subsection \<open>Contact form: the stored submissions\<close>

definition STORAGE_KEY :: string where
  "STORAGE_KEY = ''codeBrewInquiries''"

text \<open>
  \<^verbatim>\<open>loadSubmissions\<close>: \<^verbatim>\<open>data ? JSON.parse(data) : []\<close> inside a
  \<^verbatim>\<open>try\<close> whose handler returns \<^verbatim>\<open>[]\<close>. A text is falsy when it is absent
  (\<^verbatim>\<open>null\<close>) or empty. What \<^verbatim>\<open>JSON.parse\<close> returns is returned as it is,
  array or not.
\<close>

definition loadSubmissions :: "'r json json_codec \<Rightarrow> storage \<Rightarrow> js_error + 'r json" where
  "loadSubmissions J ls =
     try_catch
       (case getItem ls STORAGE_KEY of
          Inl err \<Rightarrow> Inl err
        | Inr data \<Rightarrow>
            (case data of
               None \<Rightarrow> Inr (JArray [])
             | Some s \<Rightarrow> if s = [] then Inr (JArray []) else json_parse J s))
       (\<lambda>e. Inr (JArray []))"

text \<open>
  \<^verbatim>\<open>v.push(x)\<close>: an array gets the element appended; on every other value the
  call throws a \<^verbatim>\<open>TypeError\<close> (\<^verbatim>\<open>null\<close> has no properties, and the \<^verbatim>\<open>push\<close> of
  any other value is not a function).
\<close>

fun push :: "'r json \<Rightarrow> 'r \<Rightarrow> js_error + 'r json" where
  "push (JArray xs) x = Inr (JArray (xs @ [x]))"
| "push (JValue v) x = Inl TypeError"
| "push JObject x = Inl TypeError"

text \<open>
  \<^verbatim>\<open>saveSubmission\<close>: load, push (outside the \<^verbatim>\<open>try\<close>), and a guarded write.
  A write that throws leaves the storage as it was.
\<close>

definition saveSubmission :: "'r json json_codec \<Rightarrow> storage \<Rightarrow> 'r \<Rightarrow> js_error + storage" where
  "saveSubmission J ls formData =
     (case loadSubmissions J ls of
        Inl err \<Rightarrow> Inl err
      | Inr loaded \<Rightarrow>
          (case push loaded formData of
             Inl err \<Rightarrow> Inl err
           | Inr submissions \<Rightarrow>
               try_catch
                 (setItem ls STORAGE_KEY (JSON_stringify J submissions))
                 (\<lambda>e. Inr ls)))"

subsection \<open>Welcome dashboard: the favourite drinks\<close>

record favorite =
  fav_id :: jsval
  fav_name :: jsval
  fav_size :: jsval
  fav_customization :: jsval
  fav_notes :: jsval
  fav_addedAt :: jsval

text \<open>The object \<^verbatim>\<open>addFavorite\<close> and \<^verbatim>\<open>updateFavorite\<close> receive.\<close>

record drink =
  drink_name :: jsval
  drink_size :: jsval
  drink_customization :: jsval
  drink_notes :: jsval

definition FAVORITES_KEY :: string where
  "FAVORITES_KEY = ''favoriteDrinks''"

definition loadFavorites :: "favorite json json_codec \<Rightarrow> storage \<Rightarrow> js_error + favorite json" where
  "loadFavorites J ls =
     try_catch
       (case getItem ls FAVORITES_KEY of
          Inl err \<Rightarrow> Inl err
        | Inr raw \<Rightarrow>
            (case raw of
               None \<Rightarrow> Inr (JArray [])
             | Some s \<Rightarrow> if s = [] then Inr (JArray []) else json_parse J s))
       (\<lambda>err. Inr (JArray []))"

definition saveFavorites :: "favorite json json_codec \<Rightarrow> storage \<Rightarrow> favorite json \<Rightarrow> js_error + storage" where
  "saveFavorites J ls favorites =
     try_catch
       (setItem ls FAVORITES_KEY (JSON_stringify J favorites))
       (\<lambda>err. Inr ls)"

text \<open>
  The object \<^verbatim>\<open>addFavorite\<close> builds: \<open>now\<close> is \<^verbatim>\<open>Date.now()\<close> and
  \<open>stamp\<close> is \<^verbatim>\<open>new Date().toISOString()\<close>.
\<close>

definition newDrink :: "int \<Rightarrow> jsstring \<Rightarrow> drink \<Rightarrow> favorite" where
  "newDrink now stamp d =
     \<lparr>fav_id = JNum now,
      fav_name = drink_name d,
      fav_size = drink_size d,
      fav_customization = js_or (drink_customization d) (JStr []),
      fav_notes = js_or (drink_notes d) (JStr []),
      fav_addedAt = JStr stamp\<rparr>"

definition addFavorite ::
  "favorite json json_codec \<Rightarrow> storage \<Rightarrow> int \<Rightarrow> jsstring \<Rightarrow> drink \<Rightarrow> js_error + favorite \<times> storage" where
  "addFavorite J ls now stamp d =
     (case loadFavorites J ls of
        Inl err \<Rightarrow> Inl err
      | Inr loaded \<Rightarrow>
          (case push loaded (newDrink now stamp d) of
             Inl err \<Rightarrow> Inl err
           | Inr favorites \<Rightarrow>
               (case saveFavorites J ls favorites of
                  Inl err \<Rightarrow> Inl err
                | Inr ls' \<Rightarrow> Inr (newDrink now stamp d, ls'))))"

text \<open>
  The loop of \<^verbatim>\<open>updateFavorite\<close> over an array: the first element whose id is
  \<^verbatim>\<open>===\<close> the argument gets its four fields assigned (\<open>updated\<close>), and the loop breaks.
\<close>

definition updated :: "favorite \<Rightarrow> drink \<Rightarrow> favorite" where
  "updated f updates =
     f\<lparr>fav_name := drink_name updates,
       fav_size := drink_size updates,
       fav_customization := js_or (drink_customization updates) (JStr []),
       fav_notes := js_or (drink_notes updates) (JStr [])\<rparr>"

fun update_loop :: "favorite list \<Rightarrow> jsval \<Rightarrow> drink \<Rightarrow> favorite list \<times> bool" where
  "update_loop [] ident updates = ([], False)"
| "update_loop (f # fs) ident updates =
     (if strict_eq (fav_id f) ident
      then (updated f updates # fs, True)
      else (case update_loop fs ident updates of (fs', found) \<Rightarrow> (f # fs', found)))"

text \<open>
  \<^verbatim>\<open>updateFavorite\<close>. On what is not an array: reading \<^verbatim>\<open>length\<close> of
  \<^verbatim>\<open>null\<close> throws; the \<^verbatim>\<open>length\<close> of a boolean, a number and an object is
  \<^verbatim>\<open>undefined\<close>, so the loop does not run; the elements of a string are its
  one-unit strings, whose \<^verbatim>\<open>id\<close> is \<^verbatim>\<open>undefined\<close>, and assigning a property to
  one throws in strict mode.
\<close>

definition updateFavorite ::
  "favorite json json_codec \<Rightarrow> storage \<Rightarrow> jsval \<Rightarrow> drink \<Rightarrow> js_error + bool \<times> storage" where
  "updateFavorite J ls ident updates =
     (case loadFavorites J ls of
        Inl err \<Rightarrow> Inl err
      | Inr (JArray favorites) \<Rightarrow>
          (case update_loop favorites ident updates of
             (favorites', found) \<Rightarrow>
               if found
               then (case saveFavorites J ls (JArray favorites') of
                       Inl err \<Rightarrow> Inl err
                     | Inr ls' \<Rightarrow> Inr (found, ls'))
               else Inr (found, ls))
      | Inr (JValue JUndefined) \<Rightarrow> Inl TypeError
      | Inr (JValue JNull) \<Rightarrow> Inl TypeError
      | Inr (JValue (JBool b)) \<Rightarrow> Inr (False, ls)
      | Inr (JValue (JNum n)) \<Rightarrow> Inr (False, ls)
      | Inr (JValue (JStr s)) \<Rightarrow>
          if s \<noteq> [] \<and> strict_eq JUndefined ident then Inl TypeError else Inr (False, ls)
      | Inr JObject \<Rightarrow> Inr (False, ls))"

text \<open>
  The loop of \<^verbatim>\<open>deleteFavorite\<close> over an array pushes onto \<^verbatim>\<open>next\<close> every
  element whose id is \<^verbatim>\<open>!==\<close> the argument.
\<close>

fun delete_loop :: "favorite list \<Rightarrow> jsval \<Rightarrow> favorite list \<Rightarrow> favorite list" where
  "delete_loop [] ident next = next"
| "delete_loop (f # fs) ident next =
     delete_loop fs ident (if \<not> strict_eq (fav_id f) ident then next @ [f] else next)"

text \<open>
  \<^verbatim>\<open>deleteFavorite\<close>. On what is not an array: \<^verbatim>\<open>null\<close> throws; for a boolean,
  a number and an object the loop does not run and \<^verbatim>\<open>0 < undefined\<close> is false; of a
  string every one-unit string is kept, unless the argument is \<^verbatim>\<open>undefined\<close>, when
  none is kept and the empty array is saved.
\<close>

definition deleteFavorite ::
  "favorite json json_codec \<Rightarrow> storage \<Rightarrow> jsval \<Rightarrow> js_error + bool \<times> storage" where
  "deleteFavorite J ls ident =
     (case loadFavorites J ls of
        Inl err \<Rightarrow> Inl err
      | Inr (JArray favorites) \<Rightarrow>
          (let next = delete_loop favorites ident [];
               deleted = length next < length favorites
           in if deleted
              then (case saveFavorites J ls (JArray next) of
                      Inl err \<Rightarrow> Inl err
                    | Inr ls' \<Rightarrow> Inr (deleted, ls'))
              else Inr (deleted, ls))
      | Inr (JValue JUndefined) \<Rightarrow> Inl TypeError
      | Inr (JValue JNull) \<Rightarrow> Inl TypeError
      | Inr (JValue (JBool b)) \<Rightarrow> Inr (False, ls)
      | Inr (JValue (JNum n)) \<Rightarrow> Inr (False, ls)
      | Inr (JValue (JStr s)) \<Rightarrow>
          if s \<noteq> [] \<and> strict_eq JUndefined ident
          then (case saveFavorites J ls (JArray []) of
                  Inl err \<Rightarrow> Inl err
                | Inr ls' \<Rightarrow> Inr (True, ls'))
          else Inr (False, ls)
      | Inr JObject \<Rightarrow> Inr (False, ls))"

subsection \<open>Regular expressions\<close>

text \<open>
  The patterns of the site use character classes, concatenation and \<^verbatim>\<open>+\<close> only.
  A pattern anchored at both ends (\<^verbatim>\<open>^...$\<close>) is matched against the whole
  string, by derivatives.
\<close>

datatype rx = Void | Eps | Cls "nat \<Rightarrow> bool" | Seq rx rx | Alt rx rx | Star rx

fun nullable :: "rx \<Rightarrow> bool" where
  "nullable Void = False"
| "nullable Eps = True"
| "nullable (Cls p) = False"
| "nullable (Seq r s) = (nullable r \<and> nullable s)"
| "nullable (Alt r s) = (nullable r \<or> nullable s)"
| "nullable (Star r) = True"

fun deriv :: "nat \<Rightarrow> rx \<Rightarrow> rx" where
  "deriv c Void = Void"
| "deriv c Eps = Void"
| "deriv c (Cls p) = (if p c then Eps else Void)"
| "deriv c (Seq r s) =
     (if nullable r then Alt (Seq (deriv c r) s) (deriv c s) else Seq (deriv c r) s)"
| "deriv c (Alt r s) = Alt (deriv c r) (deriv c s)"
| "deriv c (Star r) = Seq (deriv c r) (Star r)"

definition Plus :: "rx \<Rightarrow> rx" where
  "Plus r = Seq r (Star r)"

definition rx_test :: "rx \<Rightarrow> jsstring \<Rightarrow> bool" where
  "rx_test r s = nullable (foldl (\<lambda>q c. deriv c q) r s)"

text \<open>An unanchored one-class pattern such as \<^verbatim>\<open>/[A-Z]/\<close> finds a code unit of the class.\<close>

definition class_test :: "(nat \<Rightarrow> bool) \<Rightarrow> jsstring \<Rightarrow> bool" where
  "class_test p s = list_ex p s"

text \<open>\<^verbatim>\<open>/^[^\s@]+@[^\s@]+\.[^\s@]+$/\<close>; \<^verbatim>\<open>@\<close> is 64 and \<^verbatim>\<open>.\<close> is 46.\<close>

definition not_space_at :: "nat \<Rightarrow> bool" where
  "not_space_at c \<longleftrightarrow> \<not> is_space c \<and> c \<noteq> 64"

definition EMAIL_PATTERN :: rx where
  "EMAIL_PATTERN =
     Seq (Plus (Cls not_space_at))
       (Seq (Cls (\<lambda>c. c = 64))
         (Seq (Plus (Cls not_space_at))
           (Seq (Cls (\<lambda>c. c = 46)) (Plus (Cls not_space_at)))))"

subsection \<open>Contact form: validation and submission\<close>

definition MIN_NAME_LENGTH :: nat where
  "MIN_NAME_LENGTH = 2"

definition MIN_MESSAGE_LENGTH :: nat where
  "MIN_MESSAGE_LENGTH = 10"

text \<open>
  An input element: its \<^verbatim>\<open>name\<close> attribute, its value, the class
  \<^verbatim>\<open>valid\<close>/\<^verbatim>\<open>invalid\<close> it carries and the text of its error span.
\<close>

datatype mark = Unmarked | Valid | Invalid

record field =
  field_name :: string
  field_val :: jsstring
  field_mark :: mark
  field_error :: string

definition validateField :: "field \<Rightarrow> bool \<times> field" where
  "validateField fld =
     (let v = trim (field_val fld);
          fieldName = field_name fld;
          errorMessage =
            (if fieldName = ''name'' then
               (if length v = 0 then ''Full name is required.''
                else if length v < MIN_NAME_LENGTH then ''Name must be at least 2 characters.''
                else [])
             else if fieldName = ''email'' then
               (if length v = 0 then ''Email address is required.''
                else if \<not> rx_test EMAIL_PATTERN v then ''Please enter a valid email address.''
                else [])
             else if fieldName = ''message'' then
               (if length v = 0 then ''Message is required.''
                else if length v < MIN_MESSAGE_LENGTH then ''Message must be at least 10 characters.''
                else [])
             else [])
      in if errorMessage \<noteq> []
         then (False, fld\<lparr>field_mark := Invalid, field_error := errorMessage\<rparr>)
         else (True, fld\<lparr>field_mark := Valid, field_error := []\<rparr>))"

text \<open>The elements \<^verbatim>\<open>#name\<close>, \<^verbatim>\<open>#email\<close>, \<^verbatim>\<open>#subject\<close> and \<^verbatim>\<open>#message\<close>.\<close>

record contact_form =
  el_name :: field
  el_email :: field
  el_subject :: field
  el_message :: field

definition validateForm :: "contact_form \<Rightarrow> bool \<times> contact_form" where
  "validateForm form =
     (case validateField (el_name form) of (v1, n) \<Rightarrow>
      case validateField (el_email form) of (v2, e) \<Rightarrow>
      case validateField (el_message form) of (v3, m) \<Rightarrow>
        (v3 \<and> (v2 \<and> (v1 \<and> True)),
         form\<lparr>el_name := n, el_email := e, el_message := m\<rparr>))"

record inquiry =
  inq_name :: jsstring
  inq_email :: jsstring
  inq_subject :: jsstring
  inq_message :: jsstring
  inq_submittedAt :: jsstring

text \<open>
  The form data the submit handler collects: the trimmed values of the elements, a
  default for an empty subject, and \<open>stamp\<close>, which is
  \<^verbatim>\<open>new Date().toISOString()\<close>.
\<close>

definition formData :: "contact_form \<Rightarrow> jsstring \<Rightarrow> inquiry" where
  "formData form stamp =
     \<lparr>inq_name = trim (field_val (el_name form)),
      inq_email = trim (field_val (el_email form)),
      inq_subject =
        (let s = trim (field_val (el_subject form))
         in if s \<noteq> [] then s else lit ''(No subject)''),
      inq_message = trim (field_val (el_message form)),
      inq_submittedAt = stamp\<rparr>"

text \<open>
  The submit handler up to the timer: validation, then the form data. \<open>None\<close> is the
  early return of a form that does not validate.
\<close>

definition submit_handler :: "contact_form \<Rightarrow> jsstring \<Rightarrow> contact_form \<times> inquiry option" where
  "submit_handler form stamp =
     (case validateForm form of (ok, form') \<Rightarrow>
        if \<not> ok then (form', None)
        else (form', Some (formData form' stamp)))"

text \<open>The whole submission: the handler, and the timer callback that saves the form data.\<close>

definition submit_contact ::
  "inquiry json json_codec \<Rightarrow> storage \<Rightarrow> contact_form \<Rightarrow> jsstring \<Rightarrow> js_error + storage" where
  "submit_contact J ls form stamp =
     (case submit_handler form stamp of
        (form', None) \<Rightarrow> Inr ls
      | (form', Some fd) \<Rightarrow> saveSubmission J ls fd)"

subsection \<open>Account registration\<close>

definition MIN_PASSWORD_LENGTH :: nat where
  "MIN_PASSWORD_LENGTH = 8"

definition MIN_USERNAME_LENGTH :: nat where
  "MIN_USERNAME_LENGTH = 3"

definition MAX_USERNAME_LENGTH :: nat where
  "MAX_USERNAME_LENGTH = 20"

definition SESSION_KEY :: string where
  "SESSION_KEY = ''currentUser''"

definition is_upper :: "nat \<Rightarrow> bool" where
  "is_upper c \<longleftrightarrow> 65 \<le> c \<and> c \<le> 90"

definition is_lower :: "nat \<Rightarrow> bool" where
  "is_lower c \<longleftrightarrow> 97 \<le> c \<and> c \<le> 122"

definition is_digit :: "nat \<Rightarrow> bool" where
  "is_digit c \<longleftrightarrow> 48 \<le> c \<and> c \<le> 57"

definition is_special :: "nat \<Rightarrow> bool" where
  "is_special c \<longleftrightarrow> c \<in> set (lit ''!@#$%^&*'')"

record validation =
  valid :: bool
  message :: string

definition validateUsername :: "jsstring \<Rightarrow> validation" where
  "validateUsername username =
     (if username = [] \<or> length (trim username) < MIN_USERNAME_LENGTH
      then \<lparr>valid = False, message = ''Username must be at least 3 characters.''\<rparr>
      else if length (trim username) > MAX_USERNAME_LENGTH
      then \<lparr>valid = False, message = ''Username must be no more than 20 characters.''\<rparr>
      else if \<not> rx_test (Plus (Cls (\<lambda>c. is_lower c \<or> is_upper c \<or> is_digit c))) (trim username)
      then \<lparr>valid = False, message = ''Username can only contain letters and numbers.''\<rparr>
      else \<lparr>valid = True, message = []\<rparr>)"

definition validateEmail :: "jsstring \<Rightarrow> validation" where
  "validateEmail email =
     (if email = [] \<or> length (trim email) = 0
      then \<lparr>valid = False, message = ''Email address is required.''\<rparr>
      else if \<not> rx_test EMAIL_PATTERN (trim email)
      then \<lparr>valid = False, message = ''Please enter a valid email address.''\<rparr>
      else \<lparr>valid = True, message = []\<rparr>)"

record requirements =
  req_length :: bool
  req_uppercase :: bool
  req_lowercase :: bool
  req_number :: bool
  req_special :: bool

definition checkPasswordRequirements :: "jsstring \<Rightarrow> requirements" where
  "checkPasswordRequirements password =
     \<lparr>req_length = (length password \<ge> MIN_PASSWORD_LENGTH),
      req_uppercase = class_test is_upper password,
      req_lowercase = class_test is_lower password,
      req_number = class_test is_digit password,
      req_special = class_test is_special password\<rparr>"

definition validatePassword :: "jsstring \<Rightarrow> validation" where
  "validatePassword password =
     (if password = [] \<or> length password = 0
      then \<lparr>valid = False, message = ''Password is required.''\<rparr>
      else
        (let reqs = checkPasswordRequirements password;
             allMet = (req_length reqs \<and> req_uppercase reqs \<and> req_lowercase reqs \<and>
                       req_number reqs \<and> req_special reqs)
         in if \<not> allMet
            then \<lparr>valid = False, message = ''Password does not meet all requirements below.''\<rparr>
            else \<lparr>valid = True, message = []\<rparr>))"

definition validateConfirmPassword :: "jsstring \<Rightarrow> jsstring \<Rightarrow> validation" where
  "validateConfirmPassword password confirm =
     (if confirm = [] \<or> length confirm = 0
      then \<lparr>valid = False, message = ''Please confirm your password.''\<rparr>
      else if password \<noteq> confirm
      then \<lparr>valid = False, message = ''Passwords do not match.''\<rparr>
      else \<lparr>valid = True, message = []\<rparr>)"

text \<open>
  \<^verbatim>\<open>updateStrengthBar\<close>: the loop over the keys of the requirements counts the met
  ones; the class put on the bar and its label is the tier, when the password is not
  empty (\<open>None\<close>: no class, the label is a dash).
\<close>

definition metCount :: "requirements \<Rightarrow> nat" where
  "metCount reqs =
     length (filter id [req_length reqs, req_uppercase reqs, req_lowercase reqs,
                        req_number reqs, req_special reqs])"

definition strength_of :: "nat \<Rightarrow> string" where
  "strength_of n =
     (if n \<le> 2 then ''weak''
      else if n = 3 then ''fair''
      else if n = 4 then ''good''
      else if n = 5 then ''strong''
      else ''none'')"

definition updateStrengthBar :: "jsstring \<Rightarrow> string option" where
  "updateStrengthBar password =
     (let strength = strength_of (metCount (checkPasswordRequirements password))
      in if length password > 0 then Some strength else None)"

record registration =
  reg_username :: jsstring
  reg_email :: jsstring
  reg_password :: jsstring
  reg_confirmPassword :: jsstring
  reg_terms :: bool

definition validateAll :: "registration \<Rightarrow> bool" where
  "validateAll form =
     (let username = trim (reg_username form);
          email = trim (reg_email form);
          password = reg_password form;
          confirmPassword = reg_confirmPassword form;
          termsChecked = reg_terms form
      in valid (validateUsername username) \<and>
         valid (validateEmail email) \<and>
         valid (validatePassword password) \<and>
         valid (validateConfirmPassword password confirmPassword) \<and>
         termsChecked)"

record user_session =
  user_username :: jsstring
  user_email :: jsstring

text \<open>The two storage areas of the tab and the address it shows.\<close>

record window =
  localStorage :: storage
  sessionStorage :: storage
  location_href :: string

definition handleFormSubmit ::
  "user_session json_codec \<Rightarrow> window \<Rightarrow> registration \<Rightarrow> js_error + window" where
  "handleFormSubmit J w form =
     (if \<not> validateAll form then Inr w
      else
        (let userData = \<lparr>user_username = trim (reg_username form),
                         user_email = trim (reg_email form)\<rparr>
         in case try_catch
                   (setItem (sessionStorage w) SESSION_KEY (JSON_stringify J userData))
                   (\<lambda>err. Inr (sessionStorage w)) of
              Inl err \<Rightarrow> Inl err
            | Inr ss \<Rightarrow> Inr (w\<lparr>sessionStorage := ss, location_href := ''welcome.html''\<rparr>)))"

subsection \<open>Blog: filter and pagination\<close>

definition ARTICLES_PER_PAGE :: int where
  "ARTICLES_PER_PAGE = 3"

text \<open>
  An article; the excerpt, the full text and the icon play no part in filtering and
  pagination and are left out. \<^verbatim>\<open>authorId\<close> is \<^verbatim>\<open>null\<close> throughout.
\<close>

record article =
  art_id :: nat
  art_title :: jsstring
  art_category :: jsstring
  art_categoryLabel :: jsstring
  art_authorName :: jsstring
  art_date :: jsstring

definition ARTICLES :: "article list" where
  "ARTICLES =
     [\<lparr>art_id = 1, art_title = lit ''The Art of Pour Over: A Beginner's Guide'',
       art_category = lit ''brewing-tips'', art_categoryLabel = lit ''Brewing Tips'',
       art_authorName = lit ''Blue (MavScriptBlu)'', art_date = lit ''2026-02-10''\<rparr>,
      \<lparr>art_id = 2, art_title = lit ''How Code & Brew Became Our Second Office'',
       art_category = lit ''customer-stories'', art_categoryLabel = lit ''Customer Stories'',
       art_authorName = lit ''Jordan M.'', art_date = lit ''2026-02-05''\<rparr>,
      \<lparr>art_id = 3, art_title = lit ''Single Origin vs. Blends: What's the Difference?'',
       art_category = lit ''coffee-culture'', art_categoryLabel = lit ''Coffee Culture'',
       art_authorName = lit ''Seng'', art_date = lit ''2026-01-28''\<rparr>,
      \<lparr>art_id = 4, art_title = lit ''Cold Brew at Home: The 24-Hour Secret'',
       art_category = lit ''brewing-tips'', art_categoryLabel = lit ''Brewing Tips'',
       art_authorName = lit ''Tyler'', art_date = lit ''2026-01-20''\<rparr>,
      \<lparr>art_id = 5, art_title = lit ''From Burnout to Balance: A Developer's Coffee Journey'',
       art_category = lit ''customer-stories'', art_categoryLabel = lit ''Customer Stories'',
       art_authorName = lit ''Priya K.'', art_date = lit ''2026-01-15''\<rparr>,
      \<lparr>art_id = 6, art_title = lit ''The Third Wave: How Specialty Coffee Changed Everything'',
       art_category = lit ''coffee-culture'', art_categoryLabel = lit ''Coffee Culture'',
       art_authorName = lit ''Blue (MavScriptBlu)'', art_date = lit ''2026-01-08''\<rparr>]"

definition getFilteredArticles :: "article list \<Rightarrow> jsstring \<Rightarrow> article list" where
  "getFilteredArticles articles category =
     (if category = lit ''all'' then articles
      else filter (\<lambda>a. art_category a = category) articles)"

text \<open>
  What \<^verbatim>\<open>renderArticles\<close> leaves on the page: the cards of the grid, in order,
  whether the empty-state element is shown, and whether the load-more control is shown.
\<close>

record blog_page =
  grid :: "article list"
  empty_shown :: bool
  loadMore_shown :: bool

text \<open>
  \<^verbatim>\<open>xs.slice(0, end)\<close>: a negative \<open>end\<close> counts from the end of the array.
\<close>

definition slice0 :: "'a list \<Rightarrow> int \<Rightarrow> 'a list" where
  "slice0 xs end =
     (if end < 0 then take (nat (int (length xs) + end)) xs else take (nat end) xs)"

definition renderArticles :: "article list \<Rightarrow> jsstring \<Rightarrow> int \<Rightarrow> blog_page" where
  "renderArticles articles category count =
     (let filtered = getFilteredArticles articles category;
          toShow = slice0 filtered count
      in if length toShow = 0
         then \<lparr>grid = [], empty_shown = True, loadMore_shown = False\<rparr>
         else \<lparr>grid = toShow, empty_shown = False,
               loadMore_shown = (\<not> count \<ge> int (length filtered))\<rparr>)"

text \<open>The two module variables, and the handlers that change them.\<close>

record blog_state =
  activeCategory :: jsstring
  visibleCount :: int

definition initial_blog_state :: blog_state where
  "initial_blog_state = \<lparr>activeCategory = lit ''all'', visibleCount = ARTICLES_PER_PAGE\<rparr>"

definition handleFilterClick :: "jsstring \<Rightarrow> blog_state \<Rightarrow> blog_state" where
  "handleFilterClick category st = st\<lparr>activeCategory := category, visibleCount := ARTICLES_PER_PAGE\<rparr>"

definition handleLoadMore :: "blog_state \<Rightarrow> blog_state" where
  "handleLoadMore st = st\<lparr>visibleCount := visibleCount st + ARTICLES_PER_PAGE\<rparr>"

inductive reachable :: "blog_state \<Rightarrow> bool" where
  init: "reachable initial_blog_state"
| filter_click: "reachable st \<Longrightarrow> reachable (handleFilterClick category st)"
| load_more: "reachable st \<Longrightarrow> reachable (handleLoadMore st)"

subsection \<open>The operations as the specification words them\<close>

text \<open>
  \<^emph>\<open>deleteById\<close>: \<^emph>\<open>removes the first record with matching id\<close>, and so keeps every
  later one.
\<close>

fun remove_first_by_id :: "jsval \<Rightarrow> favorite list \<Rightarrow> favorite list" where
  "remove_first_by_id ident [] = []"
| "remove_first_by_id ident (f # fs) =
     (if fav_id f = ident then fs else f # remove_first_by_id ident fs)"

text \<open>
  \<^emph>\<open>view(items, filter, visibleCount)\<close>: the items that match the filter, cut to the first
  \<open>visibleCount\<close>, and \<^emph>\<open>hasMore = visibleCount < filteredTotal\<close>.
\<close>

definition view :: "article list \<Rightarrow> jsstring \<Rightarrow> int \<Rightarrow> article list \<times> bool" where
  "view its flt n =
     (let filtered = filter (\<lambda>a. flt = lit ''all'' \<or> art_category a = flt) its
      in (slice0 filtered n, n < int (length filtered)))"

text \<open>An operation of the repository followed by a fresh read of the key.\<close>

definition add_then_load ::
  "favorite json json_codec \<Rightarrow> storage \<Rightarrow> int \<Rightarrow> jsstring \<Rightarrow> drink \<Rightarrow> js_error + favorite json" where
  "add_then_load J ls now stamp d =
     (case addFavorite J ls now stamp d of
        Inl err \<Rightarrow> Inl err
      | Inr (added, ls') \<Rightarrow> loadFavorites J ls')"

definition delete_then_load ::
  "favorite json json_codec \<Rightarrow> storage \<Rightarrow> jsval \<Rightarrow> js_error + favorite json" where
  "delete_then_load J ls ident =
     (case deleteFavorite J ls ident of
        Inl err \<Rightarrow> Inl err
      | Inr (deleted, ls') \<Rightarrow> loadFavorites J ls')"

text \<open>A storage area accepts a text when it is enabled and the text fits the quota.\<close>

definition accepts :: "storage \<Rightarrow> jsstring \<Rightarrow> bool" where
  "accepts st v \<longleftrightarrow> \<not> disabled st \<and> length v \<le> quota st"

text \<open>A value whose text is not empty and is read back by JSON as the value.\<close>

definition round_trips :: "'v json_codec \<Rightarrow> 'v \<Rightarrow> bool" where
  "round_trips J v \<longleftrightarrow> JSON_stringify J v \<noteq> [] \<and> JSON_parse J (JSON_stringify J v) = Some v"

subsection \<open>Concrete storage contents, forms and drinks\<close>

definition store_of :: "(string \<times> jsstring) list \<Rightarrow> storage" where
  "store_of kvs = \<lparr>disabled = False, quota = 5242880, items = map_of kvs\<rparr>"

definition latte :: drink where
  "latte = \<lparr>drink_name = JStr (lit ''Latte''), drink_size = JStr (lit ''Medium''),
            drink_customization = JUndefined, drink_notes = JStr (lit ''extra hot'')\<rparr>"

definition flat_white :: drink where
  "flat_white = \<lparr>drink_name = JStr (lit ''Flat White''), drink_size = JStr (lit ''Small''),
                 drink_customization = JStr [], drink_notes = JUndefined\<rparr>"

definition latte_fav :: favorite where
  "latte_fav = \<lparr>fav_id = JNum 1700000000000, fav_name = JStr (lit ''Latte''),
                fav_size = JStr (lit ''Medium''), fav_customization = JStr [],
                fav_notes = JStr (lit ''extra hot''),
                fav_addedAt = JStr (lit ''2023-11-14T22:13:20.000Z'')\<rparr>"

definition mocha_fav :: favorite where
  "mocha_fav = \<lparr>fav_id = JNum 1700000000000, fav_name = JStr (lit ''Mocha''),
                fav_size = JStr (lit ''Large''), fav_customization = JStr (lit ''oat milk''),
                fav_notes = JStr [],
                fav_addedAt = JStr (lit ''2023-11-14T22:13:20.000Z'')\<rparr>"

definition espresso_fav :: favorite where
  "espresso_fav = \<lparr>fav_id = JNum 1699999999000, fav_name = JStr (lit ''Espresso''),
                   fav_size = JStr (lit ''Small''), fav_customization = JStr [],
                   fav_notes = JStr [],
                   fav_addedAt = JStr (lit ''2023-11-14T22:13:19.000Z'')\<rparr>"

definition flat_white_fav :: favorite where
  "flat_white_fav = \<lparr>fav_id = JNum 1700000000000, fav_name = JStr (lit ''Flat White''),
                     fav_size = JStr (lit ''Small''), fav_customization = JStr [],
                     fav_notes = JStr [],
                     fav_addedAt = JStr (lit ''2023-11-14T22:13:20.000Z'')\<rparr>"

definition fav_codec :: "favorite json json_codec" where
  "fav_codec = table_codec
     [(lit ''[]'', JArray []),
      (lit ''null'', JValue JNull),
      (lit ''{}'', JObject),
      (lit ''[latte]'', JArray [latte_fav]),
      (lit ''[flat white]'', JArray [flat_white_fav]),
      (lit ''[espresso]'', JArray [espresso_fav]),
      (lit ''[latte,latte]'', JArray [latte_fav, latte_fav]),
      (lit ''[espresso,latte]'', JArray [espresso_fav, latte_fav]),
      (lit ''[espresso,latte,mocha]'', JArray [espresso_fav, latte_fav, mocha_fav]),
      (lit ''[espresso,flat white,mocha]'', JArray [espresso_fav, flat_white_fav, mocha_fav])]"

definition fav_store :: "jsstring \<Rightarrow> storage" where
  "fav_store text = store_of [(FAVORITES_KEY, text)]"

definition al_form :: contact_form where
  "al_form =
     \<lparr>el_name = \<lparr>field_name = ''name'', field_val = lit ''  Al '', field_mark = Unmarked,
                  field_error = []\<rparr>,
      el_email = \<lparr>field_name = ''email'', field_val = lit ''a@b.com '', field_mark = Unmarked,
                   field_error = []\<rparr>,
      el_subject = \<lparr>field_name = ''subject'', field_val = lit ''  '', field_mark = Unmarked,
                     field_error = []\<rparr>,
      el_message = \<lparr>field_name = ''message'', field_val = lit '' Hello there'',
                     field_mark = Unmarked, field_error = []\<rparr>\<rparr>"

definition al_inquiry :: inquiry where
  "al_inquiry = \<lparr>inq_name = lit ''Al'', inq_email = lit ''a@b.com'',
                 inq_subject = lit ''(No subject)'', inq_message = lit ''Hello there'',
                 inq_submittedAt = lit ''2026-02-10T09:00:00.000Z''\<rparr>"

definition inq_codec :: "inquiry json json_codec" where
  "inq_codec = table_codec
     [(lit ''[]'', JArray []), (lit ''null'', JValue JNull), (lit ''{}'', JObject),
      (lit ''[al]'', JArray [al_inquiry])]"

definition blank_field :: "string \<Rightarrow> field" where
  "blank_field n = \<lparr>field_name = n, field_val = [32, 9, 160], field_mark = Unmarked,
                    field_error = []\<rparr>"

definition brewfan :: "jsstring \<Rightarrow> registration" where
  "brewfan pw = \<lparr>reg_username = lit '' brewfan '', reg_email = lit ''fan@codebrew.dev'',
                 reg_password = pw, reg_confirmPassword = pw, reg_terms = True\<rparr>"

definition brewfan_session :: user_session where
  "brewfan_session = \<lparr>user_username = lit ''brewfan'', user_email = lit ''fan@codebrew.dev''\<rparr>"

definition session_codec :: "user_session json_codec" where
  "session_codec = table_codec [(lit ''{brewfan}'', brewfan_session)]"

definition account_page :: window where
  "account_page = \<lparr>localStorage = store_of [], sessionStorage = store_of [],
                   location_href = ''account.html''\<rparr>"

section \<open>Properties\<close>

subsection \<open>Storage, JSON and strings\<close>

lemma try_catch_total: "try_catch body (\<lambda>e. Inr d) = Inr (case body of Inl e \<Rightarrow> d | Inr v \<Rightarrow> v)"
  by (simp add: try_catch_def split: sum.splits)

lemma setItem_accepts:
  "accepts st v \<Longrightarrow> setItem st k v = Inr (st\<lparr>items := (items st)(k \<mapsto> v)\<rparr>)"
  by (simp add: accepts_def setItem_def)

lemma saveFavorites_total: "\<exists>ls'. saveFavorites J ls (JArray fs) = Inr ls'"
  by (simp add: saveFavorites_def try_catch_total)

lemma saveFavorites_accepts:
  "accepts ls (JSON_stringify J (JArray fs)) \<Longrightarrow>
   saveFavorites J ls (JArray fs) = Inr (ls\<lparr>items := (items ls)(FAVORITES_KEY \<mapsto> JSON_stringify J (JArray fs))\<rparr>)"
  by (simp add: saveFavorites_def try_catch_def setItem_accepts)

lemma loadFavorites_written:
  "\<not> disabled ls \<Longrightarrow> round_trips J (JArray fs) \<Longrightarrow>
   loadFavorites J (ls\<lparr>items := (items ls)(FAVORITES_KEY \<mapsto> JSON_stringify J (JArray fs))\<rparr>) = Inr (JArray fs)"
  by (simp add: loadFavorites_def try_catch_def getItem_def round_trips_def json_parse_def)

lemma loadSubmissions_written:
  "\<not> disabled ls \<Longrightarrow> round_trips J (JArray xs) \<Longrightarrow>
   loadSubmissions J (ls\<lparr>items := (items ls)(STORAGE_KEY \<mapsto> JSON_stringify J (JArray xs))\<rparr>) = Inr (JArray xs)"
  by (simp add: loadSubmissions_def try_catch_def getItem_def round_trips_def json_parse_def)

lemma lit_eq_iff: "lit s = lit t \<longleftrightarrow> s = t"
  by (simp add: lit_def inj_map_eq_map inj_on_def)

lemma trim_Nil: "trim [] = []"
  by (simp add: trim_def)

lemma trim_all_space: "\<forall>c\<in>set s. is_space c \<Longrightarrow> trim s = []"
proof -
  assume "\<forall>c\<in>set s. is_space c"
  then have "dropWhile is_space s = []" by (induction s) auto
  then show ?thesis by (simp only: trim_def rev.simps dropWhile.simps)
qed

lemma dropWhile_rev_prefix: "\<exists>zs. xs = rev (dropWhile P (rev xs)) @ zs"
proof -
  have "rev xs = takeWhile P (rev xs) @ dropWhile P (rev xs)" by simp
  then have "rev (rev xs) = rev (takeWhile P (rev xs) @ dropWhile P (rev xs))" by simp
  then show ?thesis by (metis rev_append rev_rev_ident)
qed

text \<open>Trimming a trimmed string changes nothing.\<close>

lemma trim_idem: "trim (trim s) = trim s"
proof (cases "trim s = []")
  case True
  then show ?thesis by (simp add: trim_Nil)
next
  case False
  let ?u = "dropWhile is_space s"
  let ?t = "rev (dropWhile is_space (rev ?u))"
  have t: "trim s = ?t" by (simp add: trim_def)
  from False t have ne: "dropWhile is_space (rev ?u) \<noteq> []" by simp
  then have l: "\<not> is_space (hd (dropWhile is_space (rev ?u)))" by (rule hd_dropWhile)
  have une: "?u \<noteq> []"
  proof
    assume "?u = []"
    then have "dropWhile is_space (rev ?u) = []" by (simp only: rev.simps dropWhile.simps)
    with ne show False by (rule notE)
  qed
  then have h: "\<not> is_space (hd ?u)" by (rule hd_dropWhile)
  obtain zs where z: "?u = ?t @ zs" using dropWhile_rev_prefix by blast
  from ne have tne: "?t \<noteq> []" by simp
  have "hd ?t = hd ?u" using z tne by (metis hd_append2)
  with h have "\<not> is_space (hd ?t)" by simp
  with tne have d1: "dropWhile is_space ?t = ?t" by (cases ?t) auto
  have d2: "dropWhile is_space (rev ?t) = rev ?t"
    using l ne by (cases "dropWhile is_space (rev ?u)") auto
  have "trim ?t = ?t" unfolding trim_def d1 d2 by simp
  with t show ?thesis by simp
qed

text \<open>The unfoldings that run the functions on the concrete inputs.\<close>

lemmas store_run =
  store_of_def fav_store_def getItem_def setItem_def try_catch_def json_parse_def
  table_codec_def accepts_def round_trips_def FAVORITES_KEY_def STORAGE_KEY_def SESSION_KEY_def
  lit_def

lemmas fav_run =
  loadFavorites_def saveFavorites_def addFavorite_def newDrink_def updated_def
  deleteFavorite_def updateFavorite_def add_then_load_def delete_then_load_def js_or_def
  strict_eq_def fav_codec_def latte_def flat_white_def latte_fav_def mocha_fav_def
  espresso_fav_def flat_white_fav_def

lemmas string_run =
  trim_def is_space_def not_space_at_def is_upper_def is_lower_def is_digit_def is_special_def
  rx_test_def EMAIL_PATTERN_def Plus_def class_test_def

subsection \<open>Reading a repository key\<close>

text \<open>
  The read never throws, and its result in every case: the empty array when the storage
  access throws, when the key is missing or holds the empty text, and when the text is
  not JSON; otherwise what \<^verbatim>\<open>JSON.parse\<close> returns, whatever its shape.
\<close>

lemma load_cases:
  "loadSubmissions J ls =
     Inr (case getItem ls STORAGE_KEY of
            Inl e \<Rightarrow> JArray []
          | Inr None \<Rightarrow> JArray []
          | Inr (Some s) \<Rightarrow>
              if s = [] then JArray []
              else (case JSON_parse J s of None \<Rightarrow> JArray [] | Some v \<Rightarrow> v))"
  "loadFavorites K ls =
     Inr (case getItem ls FAVORITES_KEY of
            Inl e \<Rightarrow> JArray []
          | Inr None \<Rightarrow> JArray []
          | Inr (Some s) \<Rightarrow>
              if s = [] then JArray []
              else (case JSON_parse K s of None \<Rightarrow> JArray [] | Some v \<Rightarrow> v))"
  by (simp_all add: loadSubmissions_def loadFavorites_def try_catch_total json_parse_def
      split: sum.splits option.splits)

text \<open>
  C1. The claim, like the \<^verbatim>\<open>@returns {Array}\<close> of both functions, has the read
  return a sequence for every stored value. With the JSON text \<^verbatim>\<open>null\<close> under the
  favourites key, \<^verbatim>\<open>loadFavorites\<close> returns \<^verbatim>\<open>null\<close>, and with \<^verbatim>\<open>{}\<close> under the
  inquiries key \<^verbatim>\<open>loadSubmissions\<close> returns the object: neither is the empty
  sequence nor a sequence. No exception leaves the read itself; it leaves the next step
  of the callers, whose \<^verbatim>\<open>push\<close> and \<^verbatim>\<open>length\<close> are outside any \<^verbatim>\<open>try\<close>.
\<close>

theorem load_returns_non_sequence:
  "getItem (store_of [(FAVORITES_KEY, lit ''null''), (STORAGE_KEY, lit ''{}'')]) FAVORITES_KEY =
     Inr (Some (lit ''null'')) \<and>
   JSON_parse fav_codec (lit ''null'') = Some (JValue JNull) \<and>
   loadFavorites fav_codec (store_of [(FAVORITES_KEY, lit ''null''), (STORAGE_KEY, lit ''{}'')]) =
     Inr (JValue JNull) \<and>
   JSON_parse inq_codec (lit ''{}'') = Some JObject \<and>
   loadSubmissions inq_codec (store_of [(FAVORITES_KEY, lit ''null''), (STORAGE_KEY, lit ''{}'')]) =
     Inr JObject \<and>
   addFavorite fav_codec (store_of [(FAVORITES_KEY, lit ''null''), (STORAGE_KEY, lit ''{}'')])
     1700000000000 (lit ''2023-11-14T22:13:20.000Z'') latte = Inl TypeError \<and>
   deleteFavorite fav_codec (store_of [(FAVORITES_KEY, lit ''null''), (STORAGE_KEY, lit ''{}'')])
     (JNum 1700000000000) = Inl TypeError \<and>
   saveSubmission inq_codec (store_of [(FAVORITES_KEY, lit ''null''), (STORAGE_KEY, lit ''{}'')])
     al_inquiry = Inl TypeError"
  by (simp add: store_run inq_codec_def fav_codec_def loadFavorites_def loadSubmissions_def
      addFavorite_def deleteFavorite_def saveSubmission_def)

subsection \<open>Appending to a stored collection\<close>

text \<open>
  Two additions of the same drink in the same millisecond build the same record: the
  appended record is then read back twice, not once.
\<close>

theorem append_contains_once_counterexample:
  "loadFavorites fav_codec (fav_store (lit ''[latte]'')) = Inr (JArray [latte_fav]) \<and>
   addFavorite fav_codec (fav_store (lit ''[latte]'')) 1700000000000
     (lit ''2023-11-14T22:13:20.000Z'') latte =
     Inr (latte_fav, fav_store (lit ''[latte,latte]'')) \<and>
   add_then_load fav_codec (fav_store (lit ''[latte]'')) 1700000000000
     (lit ''2023-11-14T22:13:20.000Z'') latte = Inr (JArray [latte_fav, latte_fav]) \<and>
   count_list [latte_fav, latte_fav] latte_fav = 2"
  by (simp add: store_run fav_run)

text \<open>
  C2 (amended). When the storage accepts the write and JSON reads the written text back,
  \<^verbatim>\<open>saveSubmission\<close> and \<^verbatim>\<open>addFavorite\<close> followed by a read of the key give the
  prior entries in their order followed by the new record as the last element. Nothing
  is deduplicated: the new record occurs once more than it did before, so exactly once
  when no equal record was stored already.
\<close>

theorem append_then_read_back:
  "(loadSubmissions J ls = Inr (JArray prior) \<and> accepts ls (JSON_stringify J (JArray (prior @ [x]))) \<and>
    round_trips J (JArray (prior @ [x])) \<longrightarrow>
      (\<exists>ls'. saveSubmission J ls x = Inr ls' \<and> loadSubmissions J ls' = Inr (JArray (prior @ [x])))) \<and>
   (loadFavorites K ks = Inr (JArray favs) \<and>
    accepts ks (JSON_stringify K (JArray (favs @ [newDrink now stamp d]))) \<and>
    round_trips K (JArray (favs @ [newDrink now stamp d])) \<longrightarrow>
      (\<exists>ks'. addFavorite K ks now stamp d = Inr (newDrink now stamp d, ks') \<and>
             loadFavorites K ks' = Inr (JArray (favs @ [newDrink now stamp d])))) \<and>
   last (prior @ [x]) = x \<and> butlast (prior @ [x]) = prior \<and>
   count_list (prior @ [x]) x = count_list prior x + 1 \<and>
   (x \<notin> set prior \<longrightarrow> count_list (prior @ [x]) x = 1)"
proof (intro conjI impI)
  assume h: "loadSubmissions J ls = Inr (JArray prior) \<and> accepts ls (JSON_stringify J (JArray (prior @ [x]))) \<and>
    round_trips J (JArray (prior @ [x]))"
  then have nd: "\<not> disabled ls" by (simp add: accepts_def)
  from h have "saveSubmission J ls x =
      Inr (ls\<lparr>items := (items ls)(STORAGE_KEY \<mapsto> JSON_stringify J (JArray (prior @ [x])))\<rparr>)"
    by (simp add: saveSubmission_def try_catch_def setItem_accepts)
  with h nd show "\<exists>ls'. saveSubmission J ls x = Inr ls' \<and> loadSubmissions J ls' = Inr (JArray (prior @ [x]))"
    by (simp add: loadSubmissions_written)
next
  assume h: "loadFavorites K ks = Inr (JArray favs) \<and>
    accepts ks (JSON_stringify K (JArray (favs @ [newDrink now stamp d]))) \<and>
    round_trips K (JArray (favs @ [newDrink now stamp d]))"
  then have nd: "\<not> disabled ks" by (simp add: accepts_def)
  from h have "addFavorite K ks now stamp d =
      Inr (newDrink now stamp d,
           ks\<lparr>items := (items ks)(FAVORITES_KEY \<mapsto> JSON_stringify K (JArray (favs @ [newDrink now stamp d])))\<rparr>)"
    by (simp add: addFavorite_def saveFavorites_accepts)
  with h nd show "\<exists>ks'. addFavorite K ks now stamp d = Inr (newDrink now stamp d, ks') \<and>
      loadFavorites K ks' = Inr (JArray (favs @ [newDrink now stamp d]))"
    by (simp add: loadFavorites_written)
next
  show "count_list (prior @ [x]) x = count_list prior x + 1" by simp
next
  assume "x \<notin> set prior"
  then show "count_list (prior @ [x]) x = 1" by (simp add: count_list_0_iff)
qed simp_all

text \<open>
  A first inquiry saved into an empty area, and a latte added after an espresso.
\<close>

theorem append_then_read_back_witness:
  "loadSubmissions inq_codec (store_of []) = Inr (JArray []) \<and>
   accepts (store_of []) (JSON_stringify inq_codec (JArray ([] @ [al_inquiry]))) \<and>
   round_trips inq_codec (JArray ([] @ [al_inquiry])) \<and>
   al_inquiry \<notin> set [] \<and>
   (\<exists>ls'. saveSubmission inq_codec (store_of []) al_inquiry = Inr ls' \<and>
          loadSubmissions inq_codec ls' = Inr (JArray [al_inquiry])) \<and>
   count_list ([] @ [al_inquiry]) al_inquiry = 1 \<and>
   loadFavorites fav_codec (fav_store (lit ''[espresso]'')) = Inr (JArray [espresso_fav]) \<and>
   newDrink 1700000000000 (lit ''2023-11-14T22:13:20.000Z'') latte = latte_fav \<and>
   accepts (fav_store (lit ''[espresso]'')) (JSON_stringify fav_codec (JArray ([espresso_fav] @ [latte_fav]))) \<and>
   round_trips fav_codec (JArray ([espresso_fav] @ [latte_fav])) \<and>
   (\<exists>ks'. addFavorite fav_codec (fav_store (lit ''[espresso]'')) 1700000000000
             (lit ''2023-11-14T22:13:20.000Z'') latte = Inr (latte_fav, ks') \<and>
          loadFavorites fav_codec ks' = Inr (JArray [espresso_fav, latte_fav]))"
proof -
  have nd: "newDrink 1700000000000 (lit ''2023-11-14T22:13:20.000Z'') latte = latte_fav"
    by (simp add: fav_run lit_def)
  have a: "loadSubmissions inq_codec (store_of []) = Inr (JArray [])"
    by (simp add: loadSubmissions_def store_run)
  have b: "accepts (store_of []) (JSON_stringify inq_codec (JArray ([] @ [al_inquiry])))"
    by (simp add: store_run inq_codec_def)
  have c: "round_trips inq_codec (JArray ([] @ [al_inquiry]))"
    by (simp add: store_run inq_codec_def)
  have d: "loadFavorites fav_codec (fav_store (lit ''[espresso]'')) = Inr (JArray [espresso_fav])"
    by (simp add: store_run fav_run)
  have e: "accepts (fav_store (lit ''[espresso]''))
             (JSON_stringify fav_codec (JArray ([espresso_fav] @ [latte_fav])))"
    by (simp add: store_run fav_run)
  have f: "round_trips fav_codec (JArray ([espresso_fav] @ [latte_fav]))"
    by (simp add: store_run fav_run)
  note t = append_then_read_back[where J = inq_codec and ls = "store_of []" and prior = "[]"
      and x = al_inquiry and K = fav_codec and ks = "fav_store (lit ''[espresso]'')"
      and favs = "[espresso_fav]" and now = 1700000000000
      and stamp = "lit ''2023-11-14T22:13:20.000Z''" and d = latte]
  from t a b c have g: "\<exists>ls'. saveSubmission inq_codec (store_of []) al_inquiry = Inr ls' \<and>
          loadSubmissions inq_codec ls' = Inr (JArray ([] @ [al_inquiry]))" by blast
  from t d e f nd have h: "\<exists>ks'. addFavorite fav_codec (fav_store (lit ''[espresso]'')) 1700000000000
             (lit ''2023-11-14T22:13:20.000Z'') latte = Inr (latte_fav, ks') \<and>
          loadFavorites fav_codec ks' = Inr (JArray ([espresso_fav] @ [latte_fav]))" by simp
  from t have i: "count_list ([] @ [al_inquiry]) al_inquiry = 1" by simp
  from a b c d e f g h i nd show ?thesis by simp
qed

subsection \<open>Deleting and updating a favourite by id\<close>

lemma delete_loop_filter:
  "delete_loop fs ident acc = acc @ filter (\<lambda>f. fav_id f \<noteq> ident) fs"
  by (induction fs arbitrary: acc) (simp_all add: strict_eq_def)

lemma length_filter_less_iff:
  "length (filter P xs) < length xs \<longleftrightarrow> (\<exists>x\<in>set xs. \<not> P x)"
proof
  assume "length (filter P xs) < length xs"
  then have "filter P xs \<noteq> xs" by auto
  then show "\<exists>x\<in>set xs. \<not> P x" by (auto simp: filter_id_conv)
next
  assume "\<exists>x\<in>set xs. \<not> P x"
  then show "length (filter P xs) < length xs" by (auto intro: length_filter_less)
qed

lemma deleteFavorite_unfold:
  assumes "loadFavorites J ls = Inr (JArray favs)"
  shows "deleteFavorite J ls ident =
     (if \<exists>f\<in>set favs. fav_id f = ident
      then (case saveFavorites J ls (JArray (filter (\<lambda>f. fav_id f \<noteq> ident) favs)) of
              Inl err \<Rightarrow> Inl err | Inr ls' \<Rightarrow> Inr (True, ls'))
      else Inr (False, ls))"
  using assms
  by (auto simp: deleteFavorite_def delete_loop_filter length_filter_less_iff Let_def
      split: sum.splits)

lemma update_loop_absent:
  "\<forall>f\<in>set fs. fav_id f \<noteq> ident \<Longrightarrow> update_loop fs ident u = (fs, False)"
  by (induction fs) (simp_all add: strict_eq_def)

lemma update_loop_first:
  "i < length fs \<Longrightarrow> fav_id (fs ! i) = ident \<Longrightarrow> \<forall>j<i. fav_id (fs ! j) \<noteq> ident \<Longrightarrow>
   update_loop fs ident u = (fs[i := updated (fs ! i) u], True)"
proof (induction fs arbitrary: i)
  case Nil
  then show ?case by simp
next
  case (Cons f fs)
  show ?case
  proof (cases i)
    case 0
    with Cons.prems show ?thesis by (simp add: strict_eq_def)
  next
    case (Suc k)
    with Cons.prems have "fav_id f \<noteq> ident" by auto
    moreover have "k < length fs" "fav_id (fs ! k) = ident" "\<forall>j<k. fav_id (fs ! j) \<noteq> ident"
      using Cons.prems Suc by auto
    ultimately show ?thesis using Cons.IH[of k] Suc by (simp add: strict_eq_def)
  qed
qed

lemma updateFavorite_unfold:
  assumes "loadFavorites J ls = Inr (JArray favs)"
  shows "updateFavorite J ls ident u =
     (if snd (update_loop favs ident u)
      then (case saveFavorites J ls (JArray (fst (update_loop favs ident u))) of
              Inl err \<Rightarrow> Inl err | Inr ls' \<Rightarrow> Inr (True, ls'))
      else Inr (False, ls))"
  using assms by (auto simp: updateFavorite_def split: prod.splits sum.splits)

text \<open>
  Two favourites that share an id (the latte and the mocha, after an espresso): the
  specification's \<^emph>\<open>remove the first\<close> keeps the mocha, \<^verbatim>\<open>deleteFavorite\<close> removes both.
\<close>

theorem delete_first_only_counterexample:
  "loadFavorites fav_codec (fav_store (lit ''[espresso,latte,mocha]'')) =
     Inr (JArray [espresso_fav, latte_fav, mocha_fav]) \<and>
   remove_first_by_id (JNum 1700000000000) [espresso_fav, latte_fav, mocha_fav] =
     [espresso_fav, mocha_fav] \<and>
   delete_then_load fav_codec (fav_store (lit ''[espresso,latte,mocha]'')) (JNum 1700000000000) =
     Inr (JArray [espresso_fav])"
  by (simp add: store_run fav_run)

text \<open>
  C3 (amended). \<^verbatim>\<open>deleteFavorite\<close> removes every record whose id matches, keeps the
  others in their order, persists the resulting collection (the text under the key is
  its serialization when the storage accepts the write), and returns true exactly when
  a record with that id was present.
\<close>

theorem deleteFavorite_removes_every_match:
  assumes "loadFavorites J ls = Inr (JArray favs)"
  shows "\<exists>ls'. deleteFavorite J ls ident = Inr ((\<exists>f\<in>set favs. fav_id f = ident), ls') \<and>
           ((\<exists>f\<in>set favs. fav_id f = ident) \<longrightarrow>
              saveFavorites J ls (JArray (filter (\<lambda>f. fav_id f \<noteq> ident) favs)) = Inr ls' \<and>
              (accepts ls (JSON_stringify J (JArray (filter (\<lambda>f. fav_id f \<noteq> ident) favs))) \<longrightarrow>
                 getItem ls' FAVORITES_KEY =
                   Inr (Some (JSON_stringify J (JArray (filter (\<lambda>f. fav_id f \<noteq> ident) favs))))))"
proof (cases "\<exists>f\<in>set favs. fav_id f = ident")
  case True
  obtain ls' where s: "saveFavorites J ls (JArray (filter (\<lambda>f. fav_id f \<noteq> ident) favs)) = Inr ls'"
    using saveFavorites_total by blast
  have "accepts ls (JSON_stringify J (JArray (filter (\<lambda>f. fav_id f \<noteq> ident) favs))) \<Longrightarrow>
        getItem ls' FAVORITES_KEY =
          Inr (Some (JSON_stringify J (JArray (filter (\<lambda>f. fav_id f \<noteq> ident) favs))))"
    using s by (auto simp: saveFavorites_accepts getItem_def accepts_def)
  with True s show ?thesis
    by (simp add: deleteFavorite_unfold[OF assms])
next
  case False
  then show ?thesis by (simp add: deleteFavorite_unfold[OF assms])
qed

theorem deleteFavorite_removes_every_match_witness:
  "loadFavorites fav_codec (fav_store (lit ''[espresso,latte,mocha]'')) =
     Inr (JArray [espresso_fav, latte_fav, mocha_fav]) \<and>
   (\<exists>f\<in>set [espresso_fav, latte_fav, mocha_fav]. fav_id f = JNum 1700000000000) \<and>
   filter (\<lambda>f. fav_id f \<noteq> JNum 1700000000000) [espresso_fav, latte_fav, mocha_fav] =
     [espresso_fav] \<and>
   accepts (fav_store (lit ''[espresso,latte,mocha]'')) (JSON_stringify fav_codec (JArray [espresso_fav])) \<and>
   (\<exists>ls'. deleteFavorite fav_codec (fav_store (lit ''[espresso,latte,mocha]''))
             (JNum 1700000000000) = Inr (True, ls') \<and>
          getItem ls' FAVORITES_KEY = Inr (Some (lit ''[espresso]'')))"
proof -
  have a: "loadFavorites fav_codec (fav_store (lit ''[espresso,latte,mocha]'')) =
     Inr (JArray [espresso_fav, latte_fav, mocha_fav])"
    by (simp add: store_run fav_run)
  have b: "\<exists>f\<in>set [espresso_fav, latte_fav, mocha_fav]. fav_id f = JNum 1700000000000"
    by (simp add: fav_run)
  have c: "filter (\<lambda>f. fav_id f \<noteq> JNum 1700000000000) [espresso_fav, latte_fav, mocha_fav] =
     [espresso_fav]"
    by (simp add: fav_run)
  have d: "accepts (fav_store (lit ''[espresso,latte,mocha]''))
             (JSON_stringify fav_codec (JArray [espresso_fav]))"
    by (simp add: store_run fav_run)
  have e: "JSON_stringify fav_codec (JArray [espresso_fav]) = lit ''[espresso]''"
    by (simp add: store_run fav_run)
  from deleteFavorite_removes_every_match[OF a, of "JNum 1700000000000"] b c d e
  have "\<exists>ls'. deleteFavorite fav_codec (fav_store (lit ''[espresso,latte,mocha]''))
             (JNum 1700000000000) = Inr (True, ls') \<and>
          getItem ls' FAVORITES_KEY = Inr (Some (lit ''[espresso]''))"
    by auto
  with a b c d show ?thesis by simp
qed

text \<open>
  C5. Deleting an id that no stored record has returns false and leaves the storage
  as it was: the collection read afterwards is the collection read before.
\<close>

theorem deleteFavorite_absent_id:
  assumes "loadFavorites J ls = Inr (JArray favs)" and "\<forall>f\<in>set favs. fav_id f \<noteq> ident"
  shows "deleteFavorite J ls ident = Inr (False, ls) \<and>
         (\<forall>ls'. deleteFavorite J ls ident = Inr (False, ls') \<longrightarrow> loadFavorites J ls' = Inr (JArray favs))"
  using assms by (simp add: deleteFavorite_unfold[OF assms(1)])

theorem deleteFavorite_absent_id_witness:
  "loadFavorites fav_codec (fav_store (lit ''[espresso,latte,mocha]'')) =
     Inr (JArray [espresso_fav, latte_fav, mocha_fav]) \<and>
   JNum 42 \<notin> set (map fav_id [espresso_fav, latte_fav, mocha_fav]) \<and>
   deleteFavorite fav_codec (fav_store (lit ''[espresso,latte,mocha]'')) (JNum 42) =
     Inr (False, fav_store (lit ''[espresso,latte,mocha]''))"
proof -
  have a: "loadFavorites fav_codec (fav_store (lit ''[espresso,latte,mocha]'')) =
     Inr (JArray [espresso_fav, latte_fav, mocha_fav])"
    by (simp add: store_run fav_run)
  have b: "\<forall>f\<in>set [espresso_fav, latte_fav, mocha_fav]. fav_id f \<noteq> JNum 42"
    by (simp add: fav_run)
  have b': "JNum 42 \<notin> set (map fav_id [espresso_fav, latte_fav, mocha_fav])"
    by (simp add: fav_run)
  from deleteFavorite_absent_id[OF a b] a b' show ?thesis by simp
qed

text \<open>
  C4. \<^verbatim>\<open>updateFavorite\<close> finds the first record whose id matches. When there is one,
  at position \<open>i\<close>, it assigns the name, the size, the customization and the notes of
  that record and nothing else (the id, the time stamp and every other position of the
  collection are as before), persists the collection and returns true. When there is
  none it returns false and the storage is as it was.
\<close>

theorem updateFavorite_in_place:
  assumes "loadFavorites J ls = Inr (JArray favs)"
  shows "(i < length favs \<and> fav_id (favs ! i) = ident \<and> (\<forall>j<i. fav_id (favs ! j) \<noteq> ident) \<longrightarrow>
           (\<exists>ls'. updateFavorite J ls ident u = Inr (True, ls') \<and>
                  saveFavorites J ls (JArray (favs[i := updated (favs ! i) u])) = Inr ls' \<and>
                  (accepts ls (JSON_stringify J (JArray (favs[i := updated (favs ! i) u]))) \<longrightarrow>
                     getItem ls' FAVORITES_KEY =
                       Inr (Some (JSON_stringify J (JArray (favs[i := updated (favs ! i) u]))))))) \<and>
         ((\<forall>f\<in>set favs. fav_id f \<noteq> ident) \<longrightarrow> updateFavorite J ls ident u = Inr (False, ls)) \<and>
         fav_id (updated f u) = fav_id f \<and> fav_addedAt (updated f u) = fav_addedAt f \<and>
         fav_name (updated f u) = drink_name u \<and> fav_size (updated f u) = drink_size u \<and>
         fav_customization (updated f u) = js_or (drink_customization u) (JStr []) \<and>
         fav_notes (updated f u) = js_or (drink_notes u) (JStr [])"
proof (intro conjI impI)
  assume h: "i < length favs \<and> fav_id (favs ! i) = ident \<and> (\<forall>j<i. fav_id (favs ! j) \<noteq> ident)"
  then have ul: "update_loop favs ident u = (favs[i := updated (favs ! i) u], True)"
    using update_loop_first[of i favs ident u] by simp
  obtain ls' where s: "saveFavorites J ls (JArray (favs[i := updated (favs ! i) u])) = Inr ls'"
    using saveFavorites_total by blast
  have "accepts ls (JSON_stringify J (JArray (favs[i := updated (favs ! i) u]))) \<Longrightarrow>
        getItem ls' FAVORITES_KEY = Inr (Some (JSON_stringify J (JArray (favs[i := updated (favs ! i) u]))))"
    using s by (auto simp: saveFavorites_accepts getItem_def accepts_def)
  with s ul show "\<exists>ls'. updateFavorite J ls ident u = Inr (True, ls') \<and>
                  saveFavorites J ls (JArray (favs[i := updated (favs ! i) u])) = Inr ls' \<and>
                  (accepts ls (JSON_stringify J (JArray (favs[i := updated (favs ! i) u]))) \<longrightarrow>
                     getItem ls' FAVORITES_KEY =
                       Inr (Some (JSON_stringify J (JArray (favs[i := updated (favs ! i) u])))))"
    by (simp add: updateFavorite_unfold[OF assms])
next
  assume "\<forall>f\<in>set favs. fav_id f \<noteq> ident"
  then show "updateFavorite J ls ident u = Inr (False, ls)"
    by (simp add: updateFavorite_unfold[OF assms] update_loop_absent)
qed (simp_all add: updated_def)

text \<open>
  The latte at position 1 becomes a flat white; the mocha after it, with the same id,
  is untouched. An id that is not stored changes nothing.
\<close>

theorem updateFavorite_in_place_witness:
  "loadFavorites fav_codec (fav_store (lit ''[espresso,latte,mocha]'')) =
     Inr (JArray [espresso_fav, latte_fav, mocha_fav]) \<and>
   (1::nat) < length [espresso_fav, latte_fav, mocha_fav] \<and>
   fav_id ([espresso_fav, latte_fav, mocha_fav] ! 1) = JNum 1700000000000 \<and>
   fav_id ([espresso_fav, latte_fav, mocha_fav] ! 0) \<noteq> JNum 1700000000000 \<and>
   [espresso_fav, latte_fav, mocha_fav][1 := updated latte_fav flat_white] =
     [espresso_fav, flat_white_fav, mocha_fav] \<and>
   accepts (fav_store (lit ''[espresso,latte,mocha]''))
     (JSON_stringify fav_codec (JArray [espresso_fav, flat_white_fav, mocha_fav])) \<and>
   (\<exists>ls'. updateFavorite fav_codec (fav_store (lit ''[espresso,latte,mocha]''))
             (JNum 1700000000000) flat_white = Inr (True, ls') \<and>
          getItem ls' FAVORITES_KEY = Inr (Some (lit ''[espresso,flat white,mocha]''))) \<and>
   JNum 42 \<notin> set (map fav_id [espresso_fav, latte_fav, mocha_fav]) \<and>
   updateFavorite fav_codec (fav_store (lit ''[espresso,latte,mocha]'')) (JNum 42) flat_white =
     Inr (False, fav_store (lit ''[espresso,latte,mocha]''))"
proof -
  let ?favs = "[espresso_fav, latte_fav, mocha_fav]"
  have a: "loadFavorites fav_codec (fav_store (lit ''[espresso,latte,mocha]'')) = Inr (JArray ?favs)"
    by (simp add: store_run fav_run)
  have b: "(1::nat) < length ?favs \<and> fav_id (?favs ! 1) = JNum 1700000000000 \<and>
           (\<forall>j<1. fav_id (?favs ! j) \<noteq> JNum 1700000000000)"
    by (simp add: fav_run)
  have c: "?favs[1 := updated (?favs ! 1) flat_white] = [espresso_fav, flat_white_fav, mocha_fav]"
    by (simp add: fav_run)
  have d: "accepts (fav_store (lit ''[espresso,latte,mocha]''))
     (JSON_stringify fav_codec (JArray [espresso_fav, flat_white_fav, mocha_fav]))"
    by (simp add: store_run fav_run)
  have e: "JSON_stringify fav_codec (JArray [espresso_fav, flat_white_fav, mocha_fav]) =
           lit ''[espresso,flat white,mocha]''"
    by (simp add: store_run fav_run)
  have f: "\<forall>f\<in>set ?favs. fav_id f \<noteq> JNum 42"
    by (simp add: fav_run)
  note t = updateFavorite_in_place[OF a, where i = 1 and ident = "JNum 1700000000000"
      and u = flat_white]
  note t' = updateFavorite_in_place[OF a, where ident = "JNum 42" and u = flat_white]
  from t b c d e have g: "\<exists>ls'. updateFavorite fav_codec (fav_store (lit ''[espresso,latte,mocha]''))
             (JNum 1700000000000) flat_white = Inr (True, ls') \<and>
          getItem ls' FAVORITES_KEY = Inr (Some (lit ''[espresso,flat white,mocha]''))"
    by auto
  from t' f have h: "updateFavorite fav_codec (fav_store (lit ''[espresso,latte,mocha]''))
      (JNum 42) flat_white = Inr (False, fav_store (lit ''[espresso,latte,mocha]''))"
    by blast
  have b': "fav_id (?favs ! 0) \<noteq> JNum 1700000000000" by (simp add: fav_run)
  have f': "JNum 42 \<notin> set (map fav_id ?favs)" by (simp add: fav_run)
  from a b b' c d f' g h show ?thesis by simp
qed

text \<open>
  C9. When the \<^verbatim>\<open>customization\<close> or the \<^verbatim>\<open>notes\<close> of the updates object is absent,
  empty or otherwise falsy, \<^verbatim>\<open>updateFavorite\<close> stores the empty string in that field of
  the matched record, whatever the field held before; a truthy value is stored as it is.
  The collection with that record is what is saved: its text is under the key when the
  storage accepts the write, and it is what the next read returns when JSON reads the
  text back.
\<close>

theorem updateFavorite_clears_falsy_fields:
  assumes "loadFavorites J ls = Inr (JArray favs)"
      and "i < length favs" and "fav_id (favs ! i) = ident" and "\<forall>j<i. fav_id (favs ! j) \<noteq> ident"
  shows "\<exists>ls' favs'.
           updateFavorite J ls ident u = Inr (True, ls') \<and>
           saveFavorites J ls (JArray favs') = Inr ls' \<and>
           favs' = fst (update_loop favs ident u) \<and>
           length favs' = length favs \<and>
           (accepts ls (JSON_stringify J (JArray favs')) \<longrightarrow>
              getItem ls' FAVORITES_KEY = Inr (Some (JSON_stringify J (JArray favs')))) \<and>
           (accepts ls (JSON_stringify J (JArray favs')) \<and> round_trips J (JArray favs') \<longrightarrow>
              loadFavorites J ls' = Inr (JArray favs')) \<and>
           (\<not> truthy (drink_customization u) \<longrightarrow> fav_customization (favs' ! i) = JStr []) \<and>
           (\<not> truthy (drink_notes u) \<longrightarrow> fav_notes (favs' ! i) = JStr []) \<and>
           (truthy (drink_customization u) \<longrightarrow> fav_customization (favs' ! i) = drink_customization u) \<and>
           (truthy (drink_notes u) \<longrightarrow> fav_notes (favs' ! i) = drink_notes u)"
proof -
  let ?favs' = "favs[i := updated (favs ! i) u]"
  have ul: "update_loop favs ident u = (?favs', True)"
    using update_loop_first[OF assms(2-4), of u] by simp
  obtain ls' where s: "saveFavorites J ls (JArray ?favs') = Inr ls'"
    using saveFavorites_total by blast
  have k: "getItem ls' FAVORITES_KEY = Inr (Some (JSON_stringify J (JArray ?favs')))"
    if "accepts ls (JSON_stringify J (JArray ?favs'))"
    using s that by (auto simp: saveFavorites_accepts getItem_def accepts_def)
  have r: "loadFavorites J ls' = Inr (JArray ?favs')"
    if "accepts ls (JSON_stringify J (JArray ?favs')) \<and> round_trips J (JArray ?favs')"
    using s that by (auto simp: saveFavorites_accepts loadFavorites_written accepts_def)
  have u: "updateFavorite J ls ident u = Inr (True, ls')"
    using ul s by (simp add: updateFavorite_unfold[OF assms(1)])
  have f: "fav_customization (?favs' ! i) = js_or (drink_customization u) (JStr []) \<and>
           fav_notes (?favs' ! i) = js_or (drink_notes u) (JStr [])"
    using assms(2) by (simp add: updated_def)
  show ?thesis
    using u s ul k r f by (auto simp: js_or_def)
qed

text \<open>
  The stored latte has the note \<open>extra hot\<close>. An update without notes and with an empty
  customization stores a flat white whose two fields are empty; an update of that flat
  white with the latte's fields stores the latte's note.
\<close>

theorem updateFavorite_clears_falsy_fields_witness:
  "loadFavorites fav_codec (fav_store (lit ''[latte]'')) = Inr (JArray [latte_fav]) \<and>
   (0::nat) < length [latte_fav] \<and> fav_id ([latte_fav] ! 0) = JNum 1700000000000 \<and>
   \<not> truthy (drink_customization flat_white) \<and> \<not> truthy (drink_notes flat_white) \<and>
   fav_notes latte_fav = JStr (lit ''extra hot'') \<and>
   accepts (fav_store (lit ''[latte]'')) (JSON_stringify fav_codec (JArray [flat_white_fav])) \<and>
   round_trips fav_codec (JArray [flat_white_fav]) \<and>
   (\<exists>ls'. updateFavorite fav_codec (fav_store (lit ''[latte]'')) (JNum 1700000000000) flat_white =
            Inr (True, ls') \<and>
          getItem ls' FAVORITES_KEY = Inr (Some (lit ''[flat white]'')) \<and>
          loadFavorites fav_codec ls' = Inr (JArray [flat_white_fav])) \<and>
   fav_customization flat_white_fav = JStr [] \<and> fav_notes flat_white_fav = JStr [] \<and>
   loadFavorites fav_codec (fav_store (lit ''[flat white]'')) = Inr (JArray [flat_white_fav]) \<and>
   truthy (drink_notes latte) \<and>
   (\<exists>ls'. updateFavorite fav_codec (fav_store (lit ''[flat white]'')) (JNum 1700000000000) latte =
            Inr (True, ls') \<and>
          loadFavorites fav_codec ls' = Inr (JArray [latte_fav])) \<and>
   fav_notes latte_fav = drink_notes latte"
proof -
  let ?id = "JNum 1700000000000"
  have a: "loadFavorites fav_codec (fav_store (lit ''[latte]'')) = Inr (JArray [latte_fav])"
    by (simp add: store_run fav_run)
  have a': "loadFavorites fav_codec (fav_store (lit ''[flat white]'')) = Inr (JArray [flat_white_fav])"
    by (simp add: store_run fav_run)
  have b: "(0::nat) < length [latte_fav]" "(0::nat) < length [flat_white_fav]" by simp_all
  have c: "fav_id ([latte_fav] ! 0) = ?id" "fav_id ([flat_white_fav] ! 0) = ?id"
    by (simp_all add: fav_run)
  have d: "\<forall>j<0::nat. fav_id ([latte_fav] ! j) \<noteq> ?id"
          "\<forall>j<0::nat. fav_id ([flat_white_fav] ! j) \<noteq> ?id" by simp_all
  have e: "\<not> truthy (drink_customization flat_white) \<and> \<not> truthy (drink_notes flat_white) \<and>
           truthy (drink_notes latte) \<and> fav_notes latte_fav = JStr (lit ''extra hot'') \<and>
           fav_notes latte_fav = drink_notes latte \<and>
           fav_customization flat_white_fav = JStr [] \<and> fav_notes flat_white_fav = JStr []"
    by (simp add: fav_run lit_def)
  have l1: "fst (update_loop [latte_fav] ?id flat_white) = [flat_white_fav]"
    by (simp add: fav_run)
  have l2: "fst (update_loop [flat_white_fav] ?id latte) = [latte_fav]"
    by (simp add: fav_run)
  have ac: "accepts (fav_store (lit ''[latte]'')) (JSON_stringify fav_codec (JArray [flat_white_fav]))"
           "accepts (fav_store (lit ''[flat white]'')) (JSON_stringify fav_codec (JArray [latte_fav]))"
    by (simp_all add: store_run fav_run)
  have rt: "round_trips fav_codec (JArray [flat_white_fav])" "round_trips fav_codec (JArray [latte_fav])"
    by (simp_all add: store_run fav_run)
  have tx: "JSON_stringify fav_codec (JArray [flat_white_fav]) = lit ''[flat white]''"
    by (simp add: store_run fav_run)
  from updateFavorite_clears_falsy_fields[OF a b(1) c(1) d(1), of flat_white]
  obtain ls1 favs1 where
    u1: "updateFavorite fav_codec (fav_store (lit ''[latte]'')) ?id flat_white = Inr (True, ls1)"
    and f1: "favs1 = fst (update_loop [latte_fav] ?id flat_white)"
    and k1: "accepts (fav_store (lit ''[latte]'')) (JSON_stringify fav_codec (JArray favs1)) \<longrightarrow>
             getItem ls1 FAVORITES_KEY = Inr (Some (JSON_stringify fav_codec (JArray favs1)))"
    and r1: "accepts (fav_store (lit ''[latte]'')) (JSON_stringify fav_codec (JArray favs1)) \<and>
             round_trips fav_codec (JArray favs1) \<longrightarrow>
             loadFavorites fav_codec ls1 = Inr (JArray favs1)"
    by blast
  from f1 l1 have g1: "favs1 = [flat_white_fav]" by simp
  from k1 r1 g1 ac rt tx u1
  have w1: "\<exists>ls'. updateFavorite fav_codec (fav_store (lit ''[latte]'')) ?id flat_white =
            Inr (True, ls') \<and>
          getItem ls' FAVORITES_KEY = Inr (Some (lit ''[flat white]'')) \<and>
          loadFavorites fav_codec ls' = Inr (JArray [flat_white_fav])"
    by auto
  from updateFavorite_clears_falsy_fields[OF a' b(2) c(2) d(2), of latte]
  obtain ls2 favs2 where
    u2: "updateFavorite fav_codec (fav_store (lit ''[flat white]'')) ?id latte = Inr (True, ls2)"
    and f2: "favs2 = fst (update_loop [flat_white_fav] ?id latte)"
    and r2: "accepts (fav_store (lit ''[flat white]'')) (JSON_stringify fav_codec (JArray favs2)) \<and>
             round_trips fav_codec (JArray favs2) \<longrightarrow>
             loadFavorites fav_codec ls2 = Inr (JArray favs2)"
    by blast
  from f2 l2 have g2: "favs2 = [latte_fav]" by simp
  from r2 g2 ac rt u2
  have w2: "\<exists>ls'. updateFavorite fav_codec (fav_store (lit ''[flat white]'')) ?id latte =
            Inr (True, ls') \<and>
          loadFavorites fav_codec ls' = Inr (JArray [latte_fav])"
    by auto
  have e2: "drink_notes latte = JStr (lit ''extra hot'')" by (simp add: latte_def)
  from a a' b c e e2 ac rt w1 w2 show ?thesis by simp
qed

subsection \<open>The blog grid\<close>

lemma getFilteredArticles_filter:
  "getFilteredArticles its flt = filter (\<lambda>a. flt = lit ''all'' \<or> art_category a = flt) its"
  by (simp add: getFilteredArticles_def)

text \<open>
  The visible count is only ever set to the page size or increased by it: it is at least
  the page size in every state the page reaches, and every filter with every positive
  multiple of the page size is reached.
\<close>

lemma reachable_visibleCount: "reachable st \<Longrightarrow> ARTICLES_PER_PAGE \<le> visibleCount st"
  by (induction rule: reachable.induct)
     (simp_all add: initial_blog_state_def handleFilterClick_def handleLoadMore_def
        ARTICLES_PER_PAGE_def)

lemma reachable_pages:
  "reachable \<lparr>activeCategory = c, visibleCount = ARTICLES_PER_PAGE * (1 + int k)\<rparr>"
proof (induction k)
  case 0
  have "handleFilterClick c initial_blog_state =
        \<lparr>activeCategory = c, visibleCount = ARTICLES_PER_PAGE * (1 + int 0)\<rparr>"
    by (simp add: handleFilterClick_def initial_blog_state_def)
  then show ?case using reachable.filter_click[OF reachable.init, of c] by simp
next
  case (Suc k)
  have "handleLoadMore \<lparr>activeCategory = c, visibleCount = ARTICLES_PER_PAGE * (1 + int k)\<rparr> =
        \<lparr>activeCategory = c, visibleCount = ARTICLES_PER_PAGE * (1 + int (Suc k))\<rparr>"
    by (simp add: handleLoadMore_def algebra_simps)
  then show ?case using reachable.load_more[OF Suc.IH] by simp
qed

lemma renderArticles_positive:
  assumes "1 \<le> n"
  shows "grid (renderArticles its flt n) = fst (view its flt n) \<and>
         loadMore_shown (renderArticles its flt n) = snd (view its flt n)"
proof -
  let ?f = "filter (\<lambda>a. flt = lit ''all'' \<or> art_category a = flt) its"
  have s: "slice0 ?f n = take (nat n) ?f" using assms by (simp add: slice0_def)
  have e: "take (nat n) ?f = [] \<longleftrightarrow> ?f = []" using assms by (cases ?f) auto
  show ?thesis
    using assms s e
    by (auto simp: renderArticles_def view_def getFilteredArticles_filter Let_def)
qed

lemma grid_matches:
  assumes "a \<in> set (grid (renderArticles its flt n))"
  shows "flt = lit ''all'' \<or> art_category a = flt"
proof -
  let ?f = "filter (\<lambda>a. flt = lit ''all'' \<or> art_category a = flt) its"
  have "grid (renderArticles its flt n) = [] \<or> grid (renderArticles its flt n) = slice0 ?f n"
    by (simp add: renderArticles_def getFilteredArticles_filter Let_def)
  with assms have "a \<in> set (slice0 ?f n)" by auto
  then have "a \<in> set ?f" by (auto simp: slice0_def split: if_splits dest: in_set_takeD)
  then show ?thesis by simp
qed

lemma six_items:
  assumes "length its = 6"
  shows "loadMore_shown (renderArticles its (lit ''all'') ARTICLES_PER_PAGE)"
    and "\<not> loadMore_shown (renderArticles its (lit ''all'') (ARTICLES_PER_PAGE + ARTICLES_PER_PAGE))"
proof -
  have f: "getFilteredArticles its (lit ''all'') = its" by (simp add: getFilteredArticles_def)
  have ne: "its \<noteq> []" using assms by (cases its) simp_all
  have t3: "slice0 its 3 = take 3 its" by (simp add: slice0_def)
  have t6: "slice0 its 6 = take 6 its" by (simp add: slice0_def)
  show "loadMore_shown (renderArticles its (lit ''all'') ARTICLES_PER_PAGE)"
    using assms ne by (simp add: renderArticles_def f t3 ARTICLES_PER_PAGE_def Let_def)
  show "\<not> loadMore_shown (renderArticles its (lit ''all'') (ARTICLES_PER_PAGE + ARTICLES_PER_PAGE))"
    using assms ne by (simp add: renderArticles_def f t6 ARTICLES_PER_PAGE_def Let_def)
qed

text \<open>
  C6. In every state the page reaches, whatever the item collection and the filter, the
  grid shows exactly the items that match the filter (all of them for \<open>all\<close>, otherwise
  those of that category), cut to the first \<open>visibleCount\<close>, and the load-more control
  is shown exactly when \<open>visibleCount\<close> is less than the number of matching items; the
  same holds for every visible count of at least one. With six items and the page size 3
  the control is shown at 3 and hidden at 6, and the filter \<open>coffee-culture\<close> shows only
  articles of that category.
\<close>

theorem renderArticles_view:
  assumes "reachable st"
  shows "grid (renderArticles its (activeCategory st) (visibleCount st)) =
           fst (view its (activeCategory st) (visibleCount st)) \<and>
         loadMore_shown (renderArticles its (activeCategory st) (visibleCount st)) =
           snd (view its (activeCategory st) (visibleCount st)) \<and>
         grid (renderArticles its (activeCategory st) (visibleCount st)) =
           take (nat (visibleCount st))
             (filter (\<lambda>a. activeCategory st = lit ''all'' \<or> art_category a = activeCategory st) its) \<and>
         loadMore_shown (renderArticles its (activeCategory st) (visibleCount st)) =
           (visibleCount st <
              int (length (filter (\<lambda>a. activeCategory st = lit ''all'' \<or>
                                        art_category a = activeCategory st) its))) \<and>
         (\<forall>a\<in>set (grid (renderArticles its (activeCategory st) (visibleCount st))).
            activeCategory st = lit ''all'' \<or> art_category a = activeCategory st) \<and>
         (1 \<le> n \<longrightarrow>
            grid (renderArticles its flt n) = fst (view its flt n) \<and>
            loadMore_shown (renderArticles its flt n) = snd (view its flt n)) \<and>
         (length its = 6 \<longrightarrow>
            loadMore_shown (renderArticles its (lit ''all'') ARTICLES_PER_PAGE) \<and>
            \<not> loadMore_shown (renderArticles its (lit ''all'') (ARTICLES_PER_PAGE + ARTICLES_PER_PAGE))) \<and>
         (\<forall>a\<in>set (grid (renderArticles ARTICLES (lit ''coffee-culture'') ARTICLES_PER_PAGE)).
            art_category a = lit ''coffee-culture'')"
proof -
  let ?c = "activeCategory st" and ?n = "visibleCount st"
  have pos: "1 \<le> ?n"
    using reachable_visibleCount[OF assms] by (simp add: ARTICLES_PER_PAGE_def)
  note v = renderArticles_positive[OF pos, of its ?c]
  have g: "fst (view its ?c ?n) =
           take (nat ?n) (filter (\<lambda>a. ?c = lit ''all'' \<or> art_category a = ?c) its)"
    using pos by (simp add: view_def slice0_def Let_def)
  have h: "snd (view its ?c ?n) =
           (?n < int (length (filter (\<lambda>a. ?c = lit ''all'' \<or> art_category a = ?c) its)))"
    by (simp add: view_def Let_def)
  have ne: "lit ''coffee-culture'' \<noteq> lit ''all''" by (simp add: lit_eq_iff)
  show ?thesis
  proof (intro conjI impI ballI)
    show "grid (renderArticles its ?c ?n) = fst (view its ?c ?n)" using v by simp
    show "loadMore_shown (renderArticles its ?c ?n) = snd (view its ?c ?n)" using v by simp
    show "grid (renderArticles its ?c ?n) =
           take (nat ?n) (filter (\<lambda>a. ?c = lit ''all'' \<or> art_category a = ?c) its)"
      using v g by simp
    show "loadMore_shown (renderArticles its ?c ?n) =
           (?n < int (length (filter (\<lambda>a. ?c = lit ''all'' \<or> art_category a = ?c) its)))"
      using v h by simp
    show "?c = lit ''all'' \<or> art_category a = ?c"
      if "a \<in> set (grid (renderArticles its ?c ?n))" for a
      using that by (rule grid_matches)
    show "grid (renderArticles its flt n) = fst (view its flt n)" if "1 \<le> n"
      using renderArticles_positive[OF that] by simp
    show "loadMore_shown (renderArticles its flt n) = snd (view its flt n)" if "1 \<le> n"
      using renderArticles_positive[OF that] by simp
    show "loadMore_shown (renderArticles its (lit ''all'') ARTICLES_PER_PAGE)" if "length its = 6"
      using that by (rule six_items)
    show "\<not> loadMore_shown (renderArticles its (lit ''all'') (ARTICLES_PER_PAGE + ARTICLES_PER_PAGE))"
      if "length its = 6"
      using that by (rule six_items)
    show "art_category a = lit ''coffee-culture''"
      if "a \<in> set (grid (renderArticles ARTICLES (lit ''coffee-culture'') ARTICLES_PER_PAGE))" for a
      using grid_matches[OF that] ne by simp
  qed
qed

text \<open>
  The six articles of the site: the first page, the second page reached by the
  load-more handler, and the filter \<open>coffee-culture\<close>, which shows the third and the
  sixth article and no load-more control.
\<close>

theorem renderArticles_view_witness:
  "reachable initial_blog_state \<and>
   reachable (handleLoadMore initial_blog_state) \<and>
   reachable (handleFilterClick (lit ''coffee-culture'') (handleLoadMore initial_blog_state)) \<and>
   length ARTICLES = 6 \<and>
   loadMore_shown (renderArticles ARTICLES (activeCategory initial_blog_state)
     (visibleCount initial_blog_state)) \<and>
   map art_id (grid (renderArticles ARTICLES (activeCategory initial_blog_state)
     (visibleCount initial_blog_state))) = [1, 2, 3] \<and>
   \<not> loadMore_shown (renderArticles ARTICLES (activeCategory (handleLoadMore initial_blog_state))
     (visibleCount (handleLoadMore initial_blog_state))) \<and>
   map art_id (grid (renderArticles ARTICLES (lit ''coffee-culture'') ARTICLES_PER_PAGE)) = [3, 6] \<and>
   ARTICLES ! 2 \<in> set (grid (renderArticles ARTICLES (lit ''coffee-culture'') ARTICLES_PER_PAGE)) \<and>
   art_category (ARTICLES ! 2) = lit ''coffee-culture'' \<and>
   loadMore_shown (renderArticles ARTICLES (lit ''brewing-tips'') 1) =
     snd (view ARTICLES (lit ''brewing-tips'') 1)"
proof -
  let ?s0 = initial_blog_state
  let ?s1 = "handleLoadMore initial_blog_state"
  let ?s2 = "handleFilterClick (lit ''coffee-culture'') (handleLoadMore initial_blog_state)"
  have r0: "reachable ?s0" by (rule reachable.init)
  have r1: "reachable ?s1" by (intro reachable.intros)
  have r2: "reachable ?s2" by (intro reachable.intros)
  have len: "length ARTICLES = 6" by (simp add: ARTICLES_def)
  have s0: "activeCategory ?s0 = lit ''all''" "visibleCount ?s0 = ARTICLES_PER_PAGE"
    by (simp_all add: initial_blog_state_def)
  have s1: "activeCategory ?s1 = lit ''all''"
           "visibleCount ?s1 = ARTICLES_PER_PAGE + ARTICLES_PER_PAGE"
    by (simp_all add: initial_blog_state_def handleLoadMore_def)
  have g0: "map art_id (grid (renderArticles ARTICLES (lit ''all'') ARTICLES_PER_PAGE)) = [1, 2, 3]"
    by (simp add: ARTICLES_def renderArticles_def getFilteredArticles_def slice0_def
        ARTICLES_PER_PAGE_def)
  have g2: "map art_id (grid (renderArticles ARTICLES (lit ''coffee-culture'') ARTICLES_PER_PAGE)) = [3, 6]"
    by (simp add: ARTICLES_def renderArticles_def getFilteredArticles_def slice0_def
        ARTICLES_PER_PAGE_def lit_eq_iff)
  have m: "ARTICLES ! 2 \<in> set (grid (renderArticles ARTICLES (lit ''coffee-culture'') ARTICLES_PER_PAGE))"
    by (simp add: ARTICLES_def renderArticles_def getFilteredArticles_def slice0_def
        ARTICLES_PER_PAGE_def lit_eq_iff)
  note t = renderArticles_view[OF r0, of ARTICLES 1 "lit ''brewing-tips''"]
  from t len have a: "loadMore_shown (renderArticles ARTICLES (lit ''all'') ARTICLES_PER_PAGE) \<and>
      \<not> loadMore_shown (renderArticles ARTICLES (lit ''all'') (ARTICLES_PER_PAGE + ARTICLES_PER_PAGE))"
    by blast
  from t m have c: "art_category (ARTICLES ! 2) = lit ''coffee-culture''" by blast
  from t have d: "loadMore_shown (renderArticles ARTICLES (lit ''brewing-tips'') 1) =
     snd (view ARTICLES (lit ''brewing-tips'') 1)" by simp
  from r0 r1 r2 len s0 s1 g0 g2 m a c d show ?thesis by simp
qed

subsection \<open>Passwords\<close>

lemma metCount_less:
  "\<not> (req_length r \<and> req_uppercase r \<and> req_lowercase r \<and> req_number r \<and> req_special r) \<Longrightarrow>
   metCount r < 5"
  by (auto simp: metCount_def)

text \<open>
  C7. A password that is not empty and misses one of the five requirements (eight code
  units, an upper-case letter, a lower-case letter, a digit, one of \<^verbatim>\<open>!@#$%^&*\<close>) is
  invalid, with the message about the requirements, and the strength bar shows a tier
  below \<open>strong\<close>: \<open>weak\<close> for at most two met requirements, \<open>fair\<close> for three, \<open>good\<close>
  for four; \<open>strong\<close> is the tier of five.
\<close>

theorem incomplete_password_rejected:
  assumes "password \<noteq> []"
      and "length password < 8 \<or> (\<forall>c\<in>set password. \<not> is_upper c) \<or>
           (\<forall>c\<in>set password. \<not> is_lower c) \<or> (\<forall>c\<in>set password. \<not> is_digit c) \<or>
           (\<forall>c\<in>set password. \<not> is_special c)"
  shows "valid (validatePassword password) = False \<and>
         message (validatePassword password) = ''Password does not meet all requirements below.'' \<and>
         metCount (checkPasswordRequirements password) < 5 \<and>
         updateStrengthBar password =
           Some (if metCount (checkPasswordRequirements password) \<le> 2 then ''weak''
                 else if metCount (checkPasswordRequirements password) = 3 then ''fair''
                 else ''good'') \<and>
         updateStrengthBar password \<noteq> Some ''strong'' \<and>
         strength_of 5 = ''strong''"
proof -
  let ?r = "checkPasswordRequirements password"
  have nm: "\<not> (req_length ?r \<and> req_uppercase ?r \<and> req_lowercase ?r \<and> req_number ?r \<and> req_special ?r)"
    using assms(2)
    by (auto simp: checkPasswordRequirements_def class_test_def list_ex_iff MIN_PASSWORD_LENGTH_def)
  have lt: "metCount ?r < 5" using nm by (rule metCount_less)
  have v: "validatePassword password =
      \<lparr>valid = False, message = ''Password does not meet all requirements below.''\<rparr>"
    using assms(1) nm by (simp add: validatePassword_def Let_def)
  have s: "updateStrengthBar password = Some (strength_of (metCount ?r))"
    using assms(1) by (simp add: updateStrengthBar_def Let_def)
  have t: "strength_of (metCount ?r) =
       (if metCount ?r \<le> 2 then ''weak'' else if metCount ?r = 3 then ''fair'' else ''good'')"
    using lt by (auto simp: strength_of_def)
  show ?thesis using v s t lt by (simp add: strength_of_def)
qed

text \<open>The password \<^verbatim>\<open>abc12345\<close>: no upper-case letter and no special character.\<close>

theorem incomplete_password_rejected_witness:
  "lit ''abc12345'' \<noteq> [] \<and> \<not> list_ex is_upper (lit ''abc12345'') \<and>
   valid (validatePassword (lit ''abc12345'')) = False \<and>
   metCount (checkPasswordRequirements (lit ''abc12345'')) = 3 \<and>
   updateStrengthBar (lit ''abc12345'') = Some ''fair''"
  using incomplete_password_rejected[of "lit ''abc12345''"]
  by (simp add: lit_def string_run metCount_def checkPasswordRequirements_def
      MIN_PASSWORD_LENGTH_def)

subsection \<open>Registration\<close>

text \<open>
  C8. A registration that validates writes one thing: the text of the object made of the
  trimmed user name and the trimmed e-mail address, under the session key of the session
  storage (nothing when that write throws); the local storage is untouched. The
  password is not part of what is written: two valid submissions that differ only in
  their passwords leave the same window.
\<close>

theorem registration_persists_no_password:
  assumes "validateAll form" and "validateAll form'"
      and "reg_username form' = reg_username form" and "reg_email form' = reg_email form"
  shows "handleFormSubmit J w form' = handleFormSubmit J w form \<and>
         (\<exists>ss. handleFormSubmit J w form =
                  Inr (w\<lparr>sessionStorage := ss, location_href := ''welcome.html''\<rparr>) \<and>
               (accepts (sessionStorage w)
                  (JSON_stringify J \<lparr>user_username = trim (reg_username form),
                                    user_email = trim (reg_email form)\<rparr>) \<longrightarrow>
                  ss = (sessionStorage w)
                         \<lparr>items := (items (sessionStorage w))
                            (SESSION_KEY \<mapsto>
                               JSON_stringify J \<lparr>user_username = trim (reg_username form),
                                                 user_email = trim (reg_email form)\<rparr>)\<rparr>) \<and>
               (\<not> accepts (sessionStorage w)
                  (JSON_stringify J \<lparr>user_username = trim (reg_username form),
                                    user_email = trim (reg_email form)\<rparr>) \<longrightarrow>
                  ss = sessionStorage w)) \<and>
         (\<forall>w'. handleFormSubmit J w form = Inr w' \<longrightarrow> localStorage w' = localStorage w)"
  using assms
  by (auto simp: handleFormSubmit_def try_catch_def setItem_def accepts_def Let_def
      split: sum.splits)

text \<open>
  Two registrations of the same user with the passwords \<^verbatim>\<open>Espresso1!\<close> and
  \<^verbatim>\<open>Macchiato2#\<close>.
\<close>

theorem registration_persists_no_password_witness:
  "validateAll (brewfan (lit ''Espresso1!'')) \<and> validateAll (brewfan (lit ''Macchiato2#'')) \<and>
   reg_password (brewfan (lit ''Espresso1!'')) \<noteq> reg_password (brewfan (lit ''Macchiato2#'')) \<and>
   accepts (sessionStorage account_page) (JSON_stringify session_codec brewfan_session) \<and>
   handleFormSubmit session_codec account_page (brewfan (lit ''Macchiato2#'')) =
     handleFormSubmit session_codec account_page (brewfan (lit ''Espresso1!'')) \<and>
   handleFormSubmit session_codec account_page (brewfan (lit ''Espresso1!'')) =
     Inr (account_page\<lparr>sessionStorage := store_of [(SESSION_KEY, lit ''{brewfan}'')],
                       location_href := ''welcome.html''\<rparr>)"
proof -
  have v1: "validateAll (brewfan (lit ''Espresso1!''))"
    by (simp add: brewfan_def validateAll_def validateUsername_def validateEmail_def
        validatePassword_def validateConfirmPassword_def checkPasswordRequirements_def
        string_run lit_def MIN_PASSWORD_LENGTH_def MIN_USERNAME_LENGTH_def MAX_USERNAME_LENGTH_def)
  have v2: "validateAll (brewfan (lit ''Macchiato2#''))"
    by (simp add: brewfan_def validateAll_def validateUsername_def validateEmail_def
        validatePassword_def validateConfirmPassword_def checkPasswordRequirements_def
        string_run lit_def MIN_PASSWORD_LENGTH_def MIN_USERNAME_LENGTH_def MAX_USERNAME_LENGTH_def)
  have ne: "reg_password (brewfan (lit ''Espresso1!'')) \<noteq> reg_password (brewfan (lit ''Macchiato2#''))"
    by (simp add: brewfan_def lit_eq_iff)
  have u: "\<lparr>user_username = trim (reg_username (brewfan (lit ''Espresso1!''))),
            user_email = trim (reg_email (brewfan (lit ''Espresso1!'')))\<rparr> = brewfan_session"
    by (simp add: brewfan_def brewfan_session_def string_run lit_def)
  have ac: "accepts (sessionStorage account_page) (JSON_stringify session_codec brewfan_session)"
    by (simp add: account_page_def session_codec_def store_run)
  have st: "(sessionStorage account_page)
              \<lparr>items := (items (sessionStorage account_page))
                 (SESSION_KEY \<mapsto> JSON_stringify session_codec brewfan_session)\<rparr> =
            store_of [(SESSION_KEY, lit ''{brewfan}'')]"
    by (simp add: account_page_def session_codec_def store_run)
  note t = registration_persists_no_password[OF v1 v2, of session_codec account_page]
  from t have e: "handleFormSubmit session_codec account_page (brewfan (lit ''Macchiato2#'')) =
     handleFormSubmit session_codec account_page (brewfan (lit ''Espresso1!''))"
    by (simp add: brewfan_def)
  from t u ac st have f: "handleFormSubmit session_codec account_page (brewfan (lit ''Espresso1!'')) =
     Inr (account_page\<lparr>sessionStorage := store_of [(SESSION_KEY, lit ''{brewfan}'')],
                       location_href := ''welcome.html''\<rparr>)"
    by (auto simp: brewfan_def)
  from v1 v2 ne ac e f show ?thesis by simp
qed

subsection \<open>The contact form\<close>

lemma validateField_val: "field_val (snd (validateField fld)) = field_val fld"
  by (simp add: validateField_def Let_def)

lemma validateForm_vals:
  "field_val (el_name (snd (validateForm form))) = field_val (el_name form) \<and>
   field_val (el_email (snd (validateForm form))) = field_val (el_email form) \<and>
   field_val (el_subject (snd (validateForm form))) = field_val (el_subject form) \<and>
   field_val (el_message (snd (validateForm form))) = field_val (el_message form)"
  using validateField_val[of "el_name form"] validateField_val[of "el_email form"]
        validateField_val[of "el_message form"]
  by (auto simp: validateForm_def split: prod.splits)

lemma formData_validated: "formData (snd (validateForm form)) stamp = formData form stamp"
  using validateForm_vals[of form] by (simp add: formData_def)

lemma validateField_trimmed:
  "fst (validateField (fld\<lparr>field_val := trim (field_val fld)\<rparr>)) = fst (validateField fld) \<and>
   field_error (snd (validateField (fld\<lparr>field_val := trim (field_val fld)\<rparr>))) =
     field_error (snd (validateField fld))"
  by (simp add: validateField_def Let_def trim_idem)

text \<open>
  C10. \<^verbatim>\<open>validateField\<close> checks the trimmed value: a value made of white space only
  is rejected with the \<^emph>\<open>required\<close> message of the name, the e-mail address and the
  message, and the verdict and the message for a value are those for the trimmed value.
  A form that validates is saved as the record of the trimmed values (with the default
  subject for an empty one), which is what the storage then holds at the end of the
  collection; a form that does not validate saves nothing.
\<close>

theorem contact_form_trims:
  "((\<forall>c\<in>set (field_val fld). is_space c) \<longrightarrow>
      (field_name fld = ''name'' \<longrightarrow>
         validateField fld = (False, fld\<lparr>field_mark := Invalid, field_error := ''Full name is required.''\<rparr>)) \<and>
      (field_name fld = ''email'' \<longrightarrow>
         validateField fld = (False, fld\<lparr>field_mark := Invalid, field_error := ''Email address is required.''\<rparr>)) \<and>
      (field_name fld = ''message'' \<longrightarrow>
         validateField fld = (False, fld\<lparr>field_mark := Invalid, field_error := ''Message is required.''\<rparr>))) \<and>
   fst (validateField (fld\<lparr>field_val := trim (field_val fld)\<rparr>)) = fst (validateField fld) \<and>
   field_error (snd (validateField (fld\<lparr>field_val := trim (field_val fld)\<rparr>))) =
     field_error (snd (validateField fld)) \<and>
   (fst (validateForm form) \<longrightarrow>
      submit_contact J ls form stamp = saveSubmission J ls (formData form stamp) \<and>
      inq_name (formData form stamp) = trim (field_val (el_name form)) \<and>
      inq_email (formData form stamp) = trim (field_val (el_email form)) \<and>
      inq_message (formData form stamp) = trim (field_val (el_message form)) \<and>
      inq_subject (formData form stamp) =
        (if trim (field_val (el_subject form)) = [] then lit ''(No subject)''
         else trim (field_val (el_subject form))) \<and>
      (loadSubmissions J ls = Inr (JArray prior) \<and>
       accepts ls (JSON_stringify J (JArray (prior @ [formData form stamp]))) \<longrightarrow>
         (\<exists>ls'. submit_contact J ls form stamp = Inr ls' \<and>
                getItem ls' STORAGE_KEY =
                  Inr (Some (JSON_stringify J (JArray (prior @ [formData form stamp]))))))) \<and>
   (\<not> fst (validateForm form) \<longrightarrow> submit_contact J ls form stamp = Inr ls)"
proof (intro conjI impI)
  assume ws: "\<forall>c\<in>set (field_val fld). is_space c"
  show "validateField fld = (False, fld\<lparr>field_mark := Invalid, field_error := ''Full name is required.''\<rparr>)"
    if "field_name fld = ''name''"
    using that trim_all_space[OF ws] by (simp add: validateField_def)
  show "validateField fld = (False, fld\<lparr>field_mark := Invalid, field_error := ''Email address is required.''\<rparr>)"
    if "field_name fld = ''email''"
    using that trim_all_space[OF ws] by (simp add: validateField_def)
  show "validateField fld = (False, fld\<lparr>field_mark := Invalid, field_error := ''Message is required.''\<rparr>)"
    if "field_name fld = ''message''"
    using that trim_all_space[OF ws] by (simp add: validateField_def)
next
  assume ok: "fst (validateForm form)"
  then show sc: "submit_contact J ls form stamp = saveSubmission J ls (formData form stamp)"
    using formData_validated[of form stamp]
    by (auto simp: submit_contact_def submit_handler_def split: prod.splits)
  show "\<exists>ls'. submit_contact J ls form stamp = Inr ls' \<and>
                getItem ls' STORAGE_KEY =
                  Inr (Some (JSON_stringify J (JArray (prior @ [formData form stamp]))))"
    if h: "loadSubmissions J ls = Inr (JArray prior) \<and>
       accepts ls (JSON_stringify J (JArray (prior @ [formData form stamp])))"
    using h sc
    by (simp add: saveSubmission_def try_catch_def setItem_accepts getItem_def accepts_def)
next
  assume "\<not> fst (validateForm form)"
  then show "submit_contact J ls form stamp = Inr ls"
    by (auto simp: submit_contact_def submit_handler_def split: prod.splits)
qed (simp_all add: validateField_trimmed formData_def Let_def)

text \<open>
  Fields that hold a space, a tab and a no-break space; and the form of Al, whose values
  carry white space around them, submitted into an empty storage area.
\<close>

theorem contact_form_trims_witness:
  "list_all is_space (field_val (blank_field ''name'')) \<and>
   fst (validateField (blank_field ''name'')) = False \<and>
   field_error (snd (validateField (blank_field ''name''))) = ''Full name is required.'' \<and>
   field_error (snd (validateField (blank_field ''email''))) = ''Email address is required.'' \<and>
   field_error (snd (validateField (blank_field ''message''))) = ''Message is required.'' \<and>
   fst (validateForm al_form) \<and>
   formData al_form (lit ''2026-02-10T09:00:00.000Z'') = al_inquiry \<and>
   field_val (el_name al_form) \<noteq> inq_name al_inquiry \<and>
   loadSubmissions inq_codec (store_of []) = Inr (JArray []) \<and>
   accepts (store_of []) (JSON_stringify inq_codec (JArray [al_inquiry])) \<and>
   (\<exists>ls'. submit_contact inq_codec (store_of []) al_form (lit ''2026-02-10T09:00:00.000Z'') = Inr ls' \<and>
          getItem ls' STORAGE_KEY = Inr (Some (lit ''[al]''))) \<and>
   \<not> fst (validateForm (al_form\<lparr>el_name := blank_field ''name''\<rparr>)) \<and>
   submit_contact inq_codec (store_of []) (al_form\<lparr>el_name := blank_field ''name''\<rparr>)
     (lit ''2026-02-10T09:00:00.000Z'') = Inr (store_of [])"
proof -
  let ?stamp = "lit ''2026-02-10T09:00:00.000Z''"
  have ws: "\<forall>c\<in>set (field_val (blank_field n)). is_space c" for n
    by (simp add: blank_field_def is_space_def)
  have nm: "field_name (blank_field n) = n" for n
    by (simp add: blank_field_def)
  have ok: "fst (validateForm al_form)"
    by (simp add: validateForm_def validateField_def al_form_def string_run lit_def
        MIN_NAME_LENGTH_def MIN_MESSAGE_LENGTH_def)
  have fd: "formData al_form ?stamp = al_inquiry"
    by (simp add: formData_def al_form_def al_inquiry_def string_run lit_def)
  have raw: "field_val (el_name al_form) \<noteq> inq_name al_inquiry"
    by (simp add: al_form_def al_inquiry_def lit_def)
  have ld: "loadSubmissions inq_codec (store_of []) = Inr (JArray [])"
    by (simp add: loadSubmissions_def store_run)
  have ac: "accepts (store_of []) (JSON_stringify inq_codec (JArray ([] @ [al_inquiry])))"
    by (simp add: store_run inq_codec_def)
  have tx: "JSON_stringify inq_codec (JArray ([] @ [al_inquiry])) = lit ''[al]''"
    by (simp add: store_run inq_codec_def)
  have bad: "\<not> fst (validateForm (al_form\<lparr>el_name := blank_field ''name''\<rparr>))"
    by (simp add: validateForm_def validateField_def al_form_def blank_field_def string_run
        lit_def MIN_NAME_LENGTH_def MIN_MESSAGE_LENGTH_def split: prod.splits)
  note n = contact_form_trims[where fld = "blank_field ''name''" and form = al_form
      and J = inq_codec and ls = "store_of []" and stamp = ?stamp and prior = "[]"]
  note e = contact_form_trims[where fld = "blank_field ''email''"
      and form = "al_form\<lparr>el_name := blank_field ''name''\<rparr>"
      and J = inq_codec and ls = "store_of []" and stamp = ?stamp and prior = "[]"]
  note m = contact_form_trims[where fld = "blank_field ''message''" and form = al_form
      and J = inq_codec and ls = "store_of []" and stamp = ?stamp and prior = "[]"]
  from n ws nm have a1: "validateField (blank_field ''name'') =
      (False, (blank_field ''name'')\<lparr>field_mark := Invalid, field_error := ''Full name is required.''\<rparr>)"
    by blast
  from e ws nm have a2: "validateField (blank_field ''email'') =
      (False, (blank_field ''email'')\<lparr>field_mark := Invalid, field_error := ''Email address is required.''\<rparr>)"
    by blast
  from m ws nm have a3: "validateField (blank_field ''message'') =
      (False, (blank_field ''message'')\<lparr>field_mark := Invalid, field_error := ''Message is required.''\<rparr>)"
    by blast
  from n ok have "loadSubmissions inq_codec (store_of []) = Inr (JArray []) \<and>
       accepts (store_of []) (JSON_stringify inq_codec (JArray ([] @ [formData al_form ?stamp]))) \<longrightarrow>
         (\<exists>ls'. submit_contact inq_codec (store_of []) al_form ?stamp = Inr ls' \<and>
                getItem ls' STORAGE_KEY =
                  Inr (Some (JSON_stringify inq_codec (JArray ([] @ [formData al_form ?stamp])))))"
    by blast
  with ld ac fd tx have s: "\<exists>ls'. submit_contact inq_codec (store_of []) al_form ?stamp = Inr ls' \<and>
          getItem ls' STORAGE_KEY = Inr (Some (lit ''[al]''))"
    by simp
  from e bad have r: "submit_contact inq_codec (store_of []) (al_form\<lparr>el_name := blank_field ''name''\<rparr>)
     ?stamp = Inr (store_of [])"
    by blast
  have ws': "list_all is_space (field_val (blank_field ''name''))"
    by (simp add: blank_field_def is_space_def)
  from ws' a1 a2 a3 ok fd raw ld ac s bad r show ?thesis by simp
qed

end
